theory Spec2Isabelle
  imports Complex_Main "HOL-Library.Log_Nat"
begin

section \<open>Compound disaster risk scoring: the model of \<open>core_analytics.py\<close>\<close>

text \<open>
  The theory embeds the scoring methods of the class \<open>CompoundDisasterAnalytics\<close>:
  \<open>predict_compound_risk\<close>, \<open>_calculate_risk_score\<close>, \<open>_get_risk_level\<close>,
  \<open>_detect_anomaly\<close>, \<open>_generate_recommendations\<close> and
  \<open>_assess_infrastructure_impact\<close>.

  Python numbers are read in exact arithmetic: an \<open>int\<close> is an integer, a \<open>float\<close> is a
  real number, and \<open>+\<close>, \<open>-\<close>, \<open>*\<close>, \<open>/\<close>, \<open>min\<close>, \<open>max\<close> and \<open>round\<close> are the exact
  operations. The representation error of binary floating point, infinities, NaN and
  the overflow of a true division on integers too large for a float are outside this
  model. The values of an input dictionary are numbers, strings or \<open>None\<close>.
\<close>

subsection \<open>Python values and exceptions\<close>

datatype pynum = PyInt int | PyFloat real

datatype pyval = Num pynum | Str string | NoneVal

fun val :: "pynum \<Rightarrow> real" where
  "val (PyInt i) = of_int i"
| "val (PyFloat x) = x"

fun num_type :: "pynum \<Rightarrow> string" where
  "num_type (PyInt _) = ''int''"
| "num_type (PyFloat _) = ''float''"

fun type_name :: "pyval \<Rightarrow> string" where
  "type_name (Num n) = num_type n"
| "type_name (Str _) = ''str''"
| "type_name NoneVal = ''NoneType''"

text \<open>The only exception the scoring code can meet on these values: an ordering
  comparison or an arithmetic operator applied to a string or to \<open>None\<close> and a number.
  The exception carries the operator and the type names of both operands.\<close>

datatype py_exception = TypeError string string string

type_synonym 'a raising = "py_exception + 'a"

definition bind_exc :: "'a raising \<Rightarrow> ('a \<Rightarrow> 'b raising) \<Rightarrow> 'b raising" where
  "bind_exc m f = (case m of Inl e \<Rightarrow> Inl e | Inr x \<Rightarrow> f x)"

definition quoted :: "string \<Rightarrow> string" where
  "quoted s = [CHR 0x27] @ s @ [CHR 0x27]"

fun str_exc :: "py_exception \<Rightarrow> string" where
  "str_exc (TypeError opr l r) =
     (if opr = ''-'' \<or> opr = ''/''
      then ''unsupported operand type(s) for '' @ opr @ '': '' @ quoted l @ '' and '' @ quoted r
      else quoted opr @ '' not supported between instances of '' @ quoted l @ '' and '' @ quoted r)"

text \<open>\<open>v op c\<close> for a numeric literal (or numeric attribute) \<open>c\<close>.\<close>

definition py_binop :: "string \<Rightarrow> (real \<Rightarrow> real \<Rightarrow> 'a) \<Rightarrow> pyval \<Rightarrow> pynum \<Rightarrow> 'a raising" where
  "py_binop opr f v c =
     (case v of
        Num n \<Rightarrow> Inr (f (val n) (val c))
      | _ \<Rightarrow> Inl (TypeError opr (type_name v) (num_type c)))"

definition py_ge :: "pyval \<Rightarrow> pynum \<Rightarrow> bool raising" where
  "py_ge = py_binop ''>='' (\<lambda>x y. x \<ge> y)"

definition py_gt :: "pyval \<Rightarrow> pynum \<Rightarrow> bool raising" where
  "py_gt = py_binop ''>'' (\<lambda>x y. x > y)"

definition py_lt :: "pyval \<Rightarrow> pynum \<Rightarrow> bool raising" where
  "py_lt = py_binop ''<'' (\<lambda>x y. x < y)"

definition py_sub :: "pyval \<Rightarrow> pynum \<Rightarrow> real raising" where
  "py_sub = py_binop ''-'' (\<lambda>x y. x - y)"

text \<open>True division by a non-zero literal.\<close>

definition py_truediv :: "pyval \<Rightarrow> pynum \<Rightarrow> real raising" where
  "py_truediv = py_binop ''/'' (\<lambda>x y. x / y)"

text \<open>\<open>a and b\<close> on conditions: \<open>b\<close> is evaluated only when \<open>a\<close> is true.\<close>

definition py_and :: "bool raising \<Rightarrow> bool raising \<Rightarrow> bool raising" where
  "py_and a b = bind_exc a (\<lambda>x. if x then b else Inr False)"

subsection \<open>The attributes set by \<open>__init__\<close>\<close>

definition flood_threshold_precipitation :: pynum where
  "flood_threshold_precipitation = PyFloat 2.0"

definition infrastructure_critical_threshold :: pynum where
  "infrastructure_critical_threshold = PyInt 1800"

text \<open>The dictionary \<open>risk_thresholds\<close>, in insertion order.\<close>

definition risk_thresholds :: "(string \<times> real \<times> real) list" where
  "risk_thresholds =
     [(''Low'', (0.0, 0.3)), (''Moderate'', (0.3, 0.6)),
      (''High'', (0.6, 0.8)), (''Extreme'', (0.8, 1.0))]"

subsection \<open>\<open>_calculate_risk_score\<close>\<close>

text \<open>Lines 128 to 136: the heat wave component and the two extreme heat bonuses.\<close>

definition heat_risk_component :: "pyval \<Rightarrow> real raising" where
  "heat_risk_component temp =
     bind_exc (py_ge temp (PyInt 95)) (\<lambda>c95.
     bind_exc (if c95
               then bind_exc (py_sub temp (PyInt 95)) (\<lambda>d. Inr (min 1.0 (d / 15)))
               else Inr 0.0) (\<lambda>h0.
     bind_exc (py_ge temp (PyInt 100)) (\<lambda>c100.
     let h1 = (if c100 then min 1.0 (h0 + 0.2) else h0) in
     bind_exc (py_ge temp (PyInt 105)) (\<lambda>c105.
     Inr (if c105 then min 1.0 (h1 + 0.3) else h1)))))"

text \<open>Lines 139 to 141: infrastructure stress.\<close>

definition infra_risk_component :: "pyval \<Rightarrow> real raising" where
  "infra_risk_component power_demand =
     bind_exc (py_ge power_demand infrastructure_critical_threshold) (\<lambda>c.
     if c
     then bind_exc (py_sub power_demand (PyInt 1800)) (\<lambda>d. Inr (min 1.0 (d / 400)))
     else Inr 0.0)"

text \<open>Lines 144 to 146: the compound multiplier, on the two sub-scores.\<close>

definition compound_multiplier :: "real \<Rightarrow> real \<Rightarrow> real" where
  "compound_multiplier heat_risk infra_risk =
     (if heat_risk > 0.5 \<and> infra_risk > 0.5 then 1.5 else 1.0)"

text \<open>Lines 149 to 151: flood risk.\<close>

definition flood_risk_component :: "pyval \<Rightarrow> real raising" where
  "flood_risk_component precip =
     bind_exc (py_ge precip flood_threshold_precipitation) (\<lambda>c.
     if c
     then bind_exc (py_truediv precip (PyFloat 5.0)) (\<lambda>q. Inr (min 1.0 q))
     else Inr 0.0)"

text \<open>Lines 154 to 156, 159 to 161 and 164 to 166.\<close>

definition drought_stress_component :: "pyval \<Rightarrow> pyval \<Rightarrow> real raising" where
  "drought_stress_component temp precip =
     bind_exc (py_and (py_gt temp (PyInt 95)) (py_lt precip (PyFloat 0.5))) (\<lambda>c.
     Inr (if c then 0.3 else 0.0))"

definition humidity_factor_component :: "pyval \<Rightarrow> pyval \<Rightarrow> real raising" where
  "humidity_factor_component temp humidity =
     bind_exc (py_and (py_gt temp (PyInt 90)) (py_gt humidity (PyInt 70))) (\<lambda>c.
     Inr (if c then 1.3 else 1.0))"

definition soil_factor_component :: "pyval \<Rightarrow> real raising" where
  "soil_factor_component soil_moisture =
     bind_exc (py_lt soil_moisture (PyInt 20)) (\<lambda>c.
     Inr (if c then 1.2 else 1.0))"

text \<open>Line 171.\<close>

definition environmental_stress :: "real \<Rightarrow> real \<Rightarrow> real \<Rightarrow> real" where
  "environmental_stress drought_stress humidity_factor soil_factor =
     (drought_stress + (humidity_factor - 1.0) + (soil_factor - 1.0)) * 0.3"

text \<open>Lines 169 to 175: the combined risk of the sub-scores.\<close>

definition combined_risk :: "real \<Rightarrow> real \<Rightarrow> real \<Rightarrow> real \<Rightarrow> real \<Rightarrow> real \<Rightarrow> real" where
  "combined_risk heat_risk infra_risk flood_risk drought_stress humidity_factor soil_factor =
     (let primary_risk = max heat_risk flood_risk;
          infrastructure_contribution = infra_risk * 0.6;
          total_risk =
            (primary_risk + infrastructure_contribution
              + environmental_stress drought_stress humidity_factor soil_factor)
            * compound_multiplier heat_risk infra_risk
      in min 1.0 total_risk)"

text \<open>The whole method: the blocks in the order in which the source runs them.\<close>

definition calculate_risk_score ::
  "pyval \<Rightarrow> pyval \<Rightarrow> pyval \<Rightarrow> pyval \<Rightarrow> pyval \<Rightarrow> real raising" where
  "calculate_risk_score temp precip humidity power_demand soil_moisture =
     bind_exc (heat_risk_component temp) (\<lambda>heat_risk.
     bind_exc (infra_risk_component power_demand) (\<lambda>infra_risk.
     bind_exc (flood_risk_component precip) (\<lambda>flood_risk.
     bind_exc (drought_stress_component temp precip) (\<lambda>drought_stress.
     bind_exc (humidity_factor_component temp humidity) (\<lambda>humidity_factor.
     bind_exc (soil_factor_component soil_moisture) (\<lambda>soil_factor.
     Inr (combined_risk heat_risk infra_risk flood_risk
            drought_stress humidity_factor soil_factor)))))))"

subsection \<open>\<open>_get_risk_level\<close>\<close>

text \<open>The loop over the items of \<open>risk_thresholds\<close>; \<open>'Extreme'\<close> when none matches.\<close>

fun first_level :: "(string \<times> real \<times> real) list \<Rightarrow> real \<Rightarrow> string" where
  "first_level [] risk_score = ''Extreme''"
| "first_level ((level, (min_score, max_score)) # rest) risk_score =
     (if min_score \<le> risk_score \<and> risk_score < max_score then level
      else first_level rest risk_score)"

definition get_risk_level :: "real \<Rightarrow> string" where
  "get_risk_level risk_score = first_level risk_thresholds risk_score"

subsection \<open>\<open>_detect_anomaly\<close>\<close>

text \<open>The list of the five conditions is built first, each element in order; \<open>any\<close>
  then reads it.\<close>

fun collect :: "'a raising list \<Rightarrow> 'a list raising" where
  "collect [] = Inr []"
| "collect (m # ms) = bind_exc m (\<lambda>x. bind_exc (collect ms) (\<lambda>xs. Inr (x # xs)))"

fun any_true :: "bool list \<Rightarrow> bool" where
  "any_true [] = False"
| "any_true (b # bs) = (if b then True else any_true bs)"

definition detect_anomaly :: "pyval \<Rightarrow> pyval \<Rightarrow> pyval \<Rightarrow> pyval \<Rightarrow> bool raising" where
  "detect_anomaly temp precip humidity power_demand =
     bind_exc
       (collect
          [py_gt temp (PyInt 103),
           py_gt precip (PyFloat 4.0),
           py_gt power_demand (PyInt 1900),
           py_and (py_gt temp (PyInt 100)) (py_gt humidity (PyInt 80)),
           py_and (py_gt temp (PyInt 95)) (py_gt precip (PyFloat 3.0))])
       (\<lambda>anomaly_conditions. Inr (any_true anomaly_conditions))"

subsection \<open>\<open>_generate_recommendations\<close>\<close>

text \<open>The source's strings start with an emoji; a string here is a list of bytes, so
  each emoji is written as its UTF-8 encoding.\<close>

definition emoji_siren :: string where
  "emoji_siren = [CHR 0xF0, CHR 0x9F, CHR 0x9A, CHR 0xA8]"

definition emoji_high_voltage :: string where
  "emoji_high_voltage = [CHR 0xE2, CHR 0x9A, CHR 0xA1]"

definition emoji_mobile_phone :: string where
  "emoji_mobile_phone = [CHR 0xF0, CHR 0x9F, CHR 0x93, CHR 0xB1]"

definition emoji_hospital :: string where
  "emoji_hospital = [CHR 0xF0, CHR 0x9F, CHR 0x8F, CHR 0xA5]"

definition emoji_droplet :: string where
  "emoji_droplet = [CHR 0xF0, CHR 0x9F, CHR 0x92, CHR 0xA7]"

definition emoji_ambulance :: string where
  "emoji_ambulance = [CHR 0xF0, CHR 0x9F, CHR 0x9A, CHR 0x91]"

definition emoji_house :: string where
  "emoji_house = [CHR 0xF0, CHR 0x9F, CHR 0x8F, CHR 0xA0]"

definition emoji_loudspeaker :: string where
  "emoji_loudspeaker = [CHR 0xF0, CHR 0x9F, CHR 0x93, CHR 0xA2]"

definition emoji_thermometer :: string where
  "emoji_thermometer = [CHR 0xF0, CHR 0x9F, CHR 0x8C, CHR 0xA1, CHR 0xEF, CHR 0xB8, CHR 0x8F]"

definition emoji_bar_chart :: string where
  "emoji_bar_chart = [CHR 0xF0, CHR 0x9F, CHR 0x93, CHR 0x8A]"

definition emoji_fire :: string where
  "emoji_fire = [CHR 0xF0, CHR 0x9F, CHR 0x94, CHR 0xA5]"

definition emoji_water_wave :: string where
  "emoji_water_wave = [CHR 0xF0, CHR 0x9F, CHR 0x8C, CHR 0x8A]"

text \<open>The three list literals passed to \<open>extend\<close> (lines 202 to 226).\<close>

definition extreme_actions :: "string list" where
  "extreme_actions =
     [emoji_siren @ '' EMERGENCY: Activate all cooling centers immediately'',
      emoji_high_voltage @ '' CRITICAL: Monitor power grid for imminent failures'',
      emoji_mobile_phone @ '' URGENT: Issue emergency heat warnings to all residents'',
      emoji_hospital @ '' ALERT: Pre-position ambulances and medical teams'',
      emoji_droplet @ '' DEPLOY: Emergency water distribution teams'',
      emoji_ambulance @ '' ACTIVATE: Emergency response coordination center'']"

definition high_actions :: "string list" where
  "high_actions =
     [emoji_house @ '' Open additional cooling centers'',
      emoji_high_voltage @ '' Monitor power grid stress levels'',
      emoji_loudspeaker @ '' Issue heat advisory to vulnerable populations'',
      emoji_ambulance @ '' Increase emergency medical readiness'',
      emoji_droplet @ '' Ensure adequate water supplies'']"

definition moderate_actions :: "string list" where
  "moderate_actions =
     [emoji_thermometer @ '' Monitor heat conditions closely'',
      emoji_bar_chart @ '' Check vulnerable population welfare'',
      emoji_high_voltage @ '' Review power grid status'',
      emoji_droplet @ '' Remind public about heat safety'']"

text \<open>The three strings appended one at a time (lines 229 to 236).\<close>

definition cancel_outdoor_activities :: string where
  "cancel_outdoor_activities = emoji_fire @ '' EXTREME HEAT: Cancel outdoor activities''"

definition grid_stress :: string where
  "grid_stress =
     emoji_high_voltage @ '' GRID STRESS: Prepare for potential rolling blackouts''"

definition flood_drainage :: string where
  "flood_drainage = emoji_water_wave @ '' FLOOD RISK: Monitor drainage systems''"

text \<open>The list \<open>recommendations\<close> is threaded through the statements that extend it.\<close>

definition generate_recommendations ::
  "string \<Rightarrow> pyval \<Rightarrow> pyval \<Rightarrow> pyval \<Rightarrow> string list raising" where
  "generate_recommendations risk_level temp precip power_demand =
     (let recommendations = [];
          recommendations =
            (if risk_level = ''Extreme'' then recommendations @ extreme_actions
             else if risk_level = ''High'' then recommendations @ high_actions
             else if risk_level = ''Moderate'' then recommendations @ moderate_actions
             else recommendations)
      in
      bind_exc (py_gt temp (PyInt 100)) (\<lambda>hot.
      let recommendations =
            (if hot then recommendations @ [cancel_outdoor_activities] else recommendations)
      in
      bind_exc (py_gt power_demand (PyInt 1850)) (\<lambda>stressed.
      let recommendations =
            (if stressed then recommendations @ [grid_stress] else recommendations)
      in
      bind_exc (py_gt precip (PyFloat 3.0)) (\<lambda>wet.
      Inr (if wet then recommendations @ [flood_drainage] else recommendations)))))"

subsection \<open>\<open>_assess_infrastructure_impact\<close>\<close>

definition assess_infrastructure_impact :: "pyval \<Rightarrow> string raising" where
  "assess_infrastructure_impact power_demand =
     bind_exc (py_gt power_demand (PyInt 1900)) (\<lambda>c1.
     if c1 then Inr ''Critical''
     else bind_exc (py_gt power_demand (PyInt 1800)) (\<lambda>c2.
     if c2 then Inr ''High''
     else bind_exc (py_gt power_demand (PyInt 1600)) (\<lambda>c3.
     if c3 then Inr ''Moderate'' else Inr ''Low'')))"

subsection \<open>\<open>round\<close>\<close>

text \<open>Python's \<open>round(x, n)\<close> on a float gives the multiple of \<open>10^-n\<close> nearest to
  \<open>x\<close>, a tie going to the even multiple.\<close>

definition round_half_even :: "real \<Rightarrow> int" where
  "round_half_even x =
     (let f = \<lfloor>x\<rfloor>; d = x - of_int f
      in if d < 1 / 2 then f
         else if 1 / 2 < d then f + 1
         else if even f then f else f + 1)"

definition py_round :: "real \<Rightarrow> nat \<Rightarrow> real" where
  "py_round x n = of_int (round_half_even (x * 10 ^ n)) / 10 ^ n"

subsection \<open>\<open>predict_compound_risk\<close>\<close>

text \<open>The values of the returned dictionary.\<close>

datatype pyfield = FFloat real | FStr string | FBool bool | FList "string list"

text \<open>\<open>input_data.get(key, default)\<close>.\<close>

definition dict_get :: "(string \<rightharpoonup> pyval) \<Rightarrow> string \<Rightarrow> pyval \<Rightarrow> pyval" where
  "dict_get d k dflt = (case d k of Some v \<Rightarrow> v | None \<Rightarrow> dflt)"

text \<open>The body of the \<open>try\<close> statement (lines 79 to 115). The dictionary it returns is
  the list of its items in the order of the literal. \<open>now\<close> stands for the string
  \<open>datetime.now().isoformat()\<close>, which the clock decides.\<close>

definition try_body :: "string \<Rightarrow> (string \<rightharpoonup> pyval) \<Rightarrow> (string \<times> pyfield) list raising" where
  "try_body now input_data =
     (let temp = dict_get input_data ''temperature'' (Num (PyInt 75));
          precip = dict_get input_data ''precipitation'' (Num (PyFloat 0.1));
          humidity = dict_get input_data ''humidity'' (Num (PyInt 50));
          power_demand = dict_get input_data ''power_demand'' (Num (PyInt 1500));
          soil_moisture = dict_get input_data ''soil_moisture'' (Num (PyInt 30))
      in
      bind_exc (calculate_risk_score temp precip humidity power_demand soil_moisture)
        (\<lambda>risk_score.
      let risk_level = get_risk_level risk_score in
      bind_exc (detect_anomaly temp precip humidity power_demand) (\<lambda>is_anomaly.
      bind_exc (generate_recommendations risk_level temp precip power_demand)
        (\<lambda>recommendations.
      let confidence = min 0.95 (0.7 + (risk_score * 0.25)) in
      bind_exc (assess_infrastructure_impact power_demand) (\<lambda>impact.
      Inr [(''risk_score'', FFloat (py_round risk_score 3)),
           (''risk_level'', FStr risk_level),
           (''is_anomaly'', FBool is_anomaly),
           (''recommendations'', FList recommendations),
           (''confidence'', FFloat (py_round confidence 3)),
           (''infrastructure_impact'', FStr impact),
           (''analysis_time'', FStr now)])))))"

text \<open>The \<open>except Exception\<close> clause turns every exception of the body into the
  dictionary of lines 118 to 122, so the method itself always returns.\<close>

definition predict_compound_risk :: "string \<Rightarrow> (string \<rightharpoonup> pyval) \<Rightarrow> (string \<times> pyfield) list" where
  "predict_compound_risk now input_data =
     (case try_body now input_data of
        Inr result \<Rightarrow> result
      | Inl e \<Rightarrow>
          [(''error'', FStr (''Risk prediction failed: '' @ str_exc e)),
           (''risk_score'', FFloat 0.0),
           (''risk_level'', FStr ''Unknown'')])"

text \<open>Reading a key of a returned dictionary.\<close>

definition field :: "(string \<times> pyfield) list \<Rightarrow> string \<Rightarrow> pyfield option" where
  "field result k = map_of result k"

text \<open>An observation whose five readings are all present and numeric.\<close>

definition observation ::
  "pynum \<Rightarrow> pynum \<Rightarrow> pynum \<Rightarrow> pynum \<Rightarrow> pynum \<Rightarrow> (string \<rightharpoonup> pyval)" where
  "observation temp precip humidity power_demand soil_moisture =
     [''temperature'' \<mapsto> Num temp, ''precipitation'' \<mapsto> Num precip,
      ''humidity'' \<mapsto> Num humidity, ''power_demand'' \<mapsto> Num power_demand,
      ''soil_moisture'' \<mapsto> Num soil_moisture]"

section \<open>The scoring methods in the arithmetic of doubles\<close>

text \<open>
  A Python \<open>float\<close> is a double. This section writes \<open>_calculate_risk_score\<close>,
  \<open>_get_risk_level\<close>, \<open>round\<close> and \<open>predict_compound_risk\<close> once more, with the rounding
  of every floating-point operation made explicit. The parameter \<open>fl\<close> is the rounding
  of a real number to a double (for the machine: to the nearest double, ties to even):
  \<^item> a float is the real number it holds; the result of \<open>+\<close>, \<open>-\<close>, \<open>*\<close>, \<open>/\<close> on floats
    is \<open>fl\<close> of the exact result;
  \<^item> \<open>int - int\<close> is exact, \<open>int / int\<close> is \<open>fl\<close> of the exact quotient, and an
    int that meets a float is first converted, by \<open>fl\<close>;
  \<^item> a float literal is \<open>fl\<close> of its decimal; the literals 0.0, 0.25, 0.5, 1.0, 1.5,
    2.0, 3.0, 4.0 and 5.0 are doubles themselves;
  \<^item> comparisons, \<open>min\<close> and \<open>max\<close> are exact;
  \<^item> \<open>round(x, n)\<close> rounds the exact value of \<open>x\<close> to \<open>n\<close> decimals, ties to even,
    and returns the double of that decimal.
  With the identity for \<open>fl\<close> these are the definitions of the previous section.
  \<open>_detect_anomaly\<close>, \<open>_generate_recommendations\<close> and
  \<open>_assess_infrastructure_impact\<close> only compare, so they are used as they stand.
\<close>

subsection \<open>Arithmetic\<close>

definition to_float :: "(real \<Rightarrow> real) \<Rightarrow> pynum \<Rightarrow> real" where
  "to_float fl n = (case n of PyInt i \<Rightarrow> fl (of_int i) | PyFloat x \<Rightarrow> x)"

definition num_sub :: "(real \<Rightarrow> real) \<Rightarrow> pynum \<Rightarrow> pynum \<Rightarrow> pynum" where
  "num_sub fl a b =
     (case (a, b) of
        (PyInt i, PyInt j) \<Rightarrow> PyInt (i - j)
      | _ \<Rightarrow> PyFloat (fl (to_float fl a - to_float fl b)))"

definition num_truediv :: "(real \<Rightarrow> real) \<Rightarrow> pynum \<Rightarrow> pynum \<Rightarrow> real" where
  "num_truediv fl a b =
     (case (a, b) of
        (PyInt i, PyInt j) \<Rightarrow> fl (of_int i / of_int j)
      | _ \<Rightarrow> fl (to_float fl a / to_float fl b))"

definition float_add :: "(real \<Rightarrow> real) \<Rightarrow> real \<Rightarrow> real \<Rightarrow> real" where
  "float_add fl x y = fl (x + y)"

definition float_sub :: "(real \<Rightarrow> real) \<Rightarrow> real \<Rightarrow> real \<Rightarrow> real" where
  "float_sub fl x y = fl (x - y)"

definition float_mul :: "(real \<Rightarrow> real) \<Rightarrow> real \<Rightarrow> real \<Rightarrow> real" where
  "float_mul fl x y = fl (x * y)"

text \<open>\<open>v - c\<close> and \<open>v / c\<close> for a numeric literal \<open>c\<close>, on any value \<open>v\<close>.\<close>

definition py_sub_fl :: "(real \<Rightarrow> real) \<Rightarrow> pyval \<Rightarrow> pynum \<Rightarrow> pynum raising" where
  "py_sub_fl fl v c =
     (case v of
        Num n \<Rightarrow> Inr (num_sub fl n c)
      | _ \<Rightarrow> Inl (TypeError ''-'' (type_name v) (num_type c)))"

definition py_truediv_fl :: "(real \<Rightarrow> real) \<Rightarrow> pyval \<Rightarrow> pynum \<Rightarrow> real raising" where
  "py_truediv_fl fl v c =
     (case v of
        Num n \<Rightarrow> Inr (num_truediv fl n c)
      | _ \<Rightarrow> Inl (TypeError ''/'' (type_name v) (num_type c)))"

subsection \<open>\<open>_calculate_risk_score\<close>\<close>

definition heat_risk_component_fl :: "(real \<Rightarrow> real) \<Rightarrow> pyval \<Rightarrow> real raising" where
  "heat_risk_component_fl fl temp =
     bind_exc (py_ge temp (PyInt 95)) (\<lambda>c95.
     bind_exc (if c95
               then bind_exc (py_sub_fl fl temp (PyInt 95))
                      (\<lambda>d. Inr (min 1.0 (num_truediv fl d (PyInt 15))))
               else Inr 0.0) (\<lambda>h0.
     bind_exc (py_ge temp (PyInt 100)) (\<lambda>c100.
     let h1 = (if c100 then min 1.0 (float_add fl h0 (fl 0.2)) else h0) in
     bind_exc (py_ge temp (PyInt 105)) (\<lambda>c105.
     Inr (if c105 then min 1.0 (float_add fl h1 (fl 0.3)) else h1)))))"

definition infra_risk_component_fl :: "(real \<Rightarrow> real) \<Rightarrow> pyval \<Rightarrow> real raising" where
  "infra_risk_component_fl fl power_demand =
     bind_exc (py_ge power_demand infrastructure_critical_threshold) (\<lambda>c.
     if c
     then bind_exc (py_sub_fl fl power_demand (PyInt 1800))
            (\<lambda>d. Inr (min 1.0 (num_truediv fl d (PyInt 400))))
     else Inr 0.0)"

definition flood_risk_component_fl :: "(real \<Rightarrow> real) \<Rightarrow> pyval \<Rightarrow> real raising" where
  "flood_risk_component_fl fl precip =
     bind_exc (py_ge precip flood_threshold_precipitation) (\<lambda>c.
     if c
     then bind_exc (py_truediv_fl fl precip (PyFloat 5.0)) (\<lambda>q. Inr (min 1.0 q))
     else Inr 0.0)"

definition drought_stress_component_fl ::
  "(real \<Rightarrow> real) \<Rightarrow> pyval \<Rightarrow> pyval \<Rightarrow> real raising" where
  "drought_stress_component_fl fl temp precip =
     bind_exc (py_and (py_gt temp (PyInt 95)) (py_lt precip (PyFloat 0.5))) (\<lambda>c.
     Inr (if c then fl 0.3 else 0.0))"

definition humidity_factor_component_fl ::
  "(real \<Rightarrow> real) \<Rightarrow> pyval \<Rightarrow> pyval \<Rightarrow> real raising" where
  "humidity_factor_component_fl fl temp humidity =
     bind_exc (py_and (py_gt temp (PyInt 90)) (py_gt humidity (PyInt 70))) (\<lambda>c.
     Inr (if c then fl 1.3 else 1.0))"

definition soil_factor_component_fl :: "(real \<Rightarrow> real) \<Rightarrow> pyval \<Rightarrow> real raising" where
  "soil_factor_component_fl fl soil_moisture =
     bind_exc (py_lt soil_moisture (PyInt 20)) (\<lambda>c.
     Inr (if c then fl 1.2 else 1.0))"

definition environmental_stress_fl :: "(real \<Rightarrow> real) \<Rightarrow> real \<Rightarrow> real \<Rightarrow> real \<Rightarrow> real" where
  "environmental_stress_fl fl drought_stress humidity_factor soil_factor =
     float_mul fl
       (float_add fl
          (float_add fl drought_stress (float_sub fl humidity_factor 1.0))
          (float_sub fl soil_factor 1.0))
       (fl 0.3)"

definition combined_risk_fl ::
  "(real \<Rightarrow> real) \<Rightarrow> real \<Rightarrow> real \<Rightarrow> real \<Rightarrow> real \<Rightarrow> real \<Rightarrow> real \<Rightarrow> real" where
  "combined_risk_fl fl heat_risk infra_risk flood_risk drought_stress humidity_factor
       soil_factor =
     (let primary_risk = max heat_risk flood_risk;
          infrastructure_contribution = float_mul fl infra_risk (fl 0.6);
          total_risk =
            float_mul fl
              (float_add fl
                 (float_add fl primary_risk infrastructure_contribution)
                 (environmental_stress_fl fl drought_stress humidity_factor soil_factor))
              (compound_multiplier heat_risk infra_risk)
      in min 1.0 total_risk)"

definition calculate_risk_score_fl ::
  "(real \<Rightarrow> real) \<Rightarrow> pyval \<Rightarrow> pyval \<Rightarrow> pyval \<Rightarrow> pyval \<Rightarrow> pyval \<Rightarrow> real raising" where
  "calculate_risk_score_fl fl temp precip humidity power_demand soil_moisture =
     bind_exc (heat_risk_component_fl fl temp) (\<lambda>heat_risk.
     bind_exc (infra_risk_component_fl fl power_demand) (\<lambda>infra_risk.
     bind_exc (flood_risk_component_fl fl precip) (\<lambda>flood_risk.
     bind_exc (drought_stress_component_fl fl temp precip) (\<lambda>drought_stress.
     bind_exc (humidity_factor_component_fl fl temp humidity) (\<lambda>humidity_factor.
     bind_exc (soil_factor_component_fl fl soil_moisture) (\<lambda>soil_factor.
     Inr (combined_risk_fl fl heat_risk infra_risk flood_risk
            drought_stress humidity_factor soil_factor)))))))"

subsection \<open>\<open>_get_risk_level\<close>, \<open>round\<close> and \<open>predict_compound_risk\<close>\<close>

definition risk_thresholds_fl :: "(real \<Rightarrow> real) \<Rightarrow> (string \<times> real \<times> real) list" where
  "risk_thresholds_fl fl =
     [(''Low'', (0.0, fl 0.3)), (''Moderate'', (fl 0.3, fl 0.6)),
      (''High'', (fl 0.6, fl 0.8)), (''Extreme'', (fl 0.8, 1.0))]"

definition get_risk_level_fl :: "(real \<Rightarrow> real) \<Rightarrow> real \<Rightarrow> string" where
  "get_risk_level_fl fl risk_score = first_level (risk_thresholds_fl fl) risk_score"

definition py_round_fl :: "(real \<Rightarrow> real) \<Rightarrow> real \<Rightarrow> nat \<Rightarrow> real" where
  "py_round_fl fl x n = fl (of_int (round_half_even (x * 10 ^ n)) / 10 ^ n)"

definition try_body_fl ::
  "(real \<Rightarrow> real) \<Rightarrow> string \<Rightarrow> (string \<rightharpoonup> pyval) \<Rightarrow> (string \<times> pyfield) list raising" where
  "try_body_fl fl now input_data =
     (let temp = dict_get input_data ''temperature'' (Num (PyInt 75));
          precip = dict_get input_data ''precipitation'' (Num (PyFloat (fl 0.1)));
          humidity = dict_get input_data ''humidity'' (Num (PyInt 50));
          power_demand = dict_get input_data ''power_demand'' (Num (PyInt 1500));
          soil_moisture = dict_get input_data ''soil_moisture'' (Num (PyInt 30))
      in
      bind_exc (calculate_risk_score_fl fl temp precip humidity power_demand soil_moisture)
        (\<lambda>risk_score.
      let risk_level = get_risk_level_fl fl risk_score in
      bind_exc (detect_anomaly temp precip humidity power_demand) (\<lambda>is_anomaly.
      bind_exc (generate_recommendations risk_level temp precip power_demand)
        (\<lambda>recommendations.
      let confidence =
            min (fl 0.95) (float_add fl (fl 0.7) (float_mul fl risk_score 0.25)) in
      bind_exc (assess_infrastructure_impact power_demand) (\<lambda>impact.
      Inr [(''risk_score'', FFloat (py_round_fl fl risk_score 3)),
           (''risk_level'', FStr risk_level),
           (''is_anomaly'', FBool is_anomaly),
           (''recommendations'', FList recommendations),
           (''confidence'', FFloat (py_round_fl fl confidence 3)),
           (''infrastructure_impact'', FStr impact),
           (''analysis_time'', FStr now)])))))"

definition predict_compound_risk_fl ::
  "(real \<Rightarrow> real) \<Rightarrow> string \<Rightarrow> (string \<rightharpoonup> pyval) \<Rightarrow> (string \<times> pyfield) list" where
  "predict_compound_risk_fl fl now input_data =
     (case try_body_fl fl now input_data of
        Inr result \<Rightarrow> result
      | Inl e \<Rightarrow>
          [(''error'', FStr (''Risk prediction failed: '' @ str_exc e)),
           (''risk_score'', FFloat 0.0),
           (''risk_level'', FStr ''Unknown'')])"

subsection \<open>The rounding of the machine\<close>

text \<open>
  Rounding to the nearest double, ties to even. A double is \<open>m * 2^e\<close> with an integer
  \<open>m\<close> of at most 53 bits and \<open>e \<ge> -1074\<close>. For \<open>2^b \<le> \<bar>x\<bar> < 2^(b+1)\<close> the last
  bit of the doubles around \<open>x\<close> has the exponent \<open>e = max b (-1022) - 52\<close>, and \<open>x\<close> is
  rounded to the nearest multiple of \<open>2^e\<close>. \<open>binade\<close> computes \<open>b\<close> from the number of
  bits of \<open>\<lfloor>\<bar>x\<bar>\<rfloor>\<close>, or of \<open>\<lceil>1 / \<bar>x\<bar>\<rceil> - 1\<close> when \<open>\<bar>x\<bar> < 1\<close>. Numbers of magnitude
  \<open>2^1024\<close> and more, which the machine rounds to an infinity, are outside this model.
\<close>

definition binade :: "real \<Rightarrow> int" where
  "binade x =
     (if 1 \<le> \<bar>x\<bar> then int (floorlog 2 (nat \<lfloor>\<bar>x\<bar>\<rfloor>)) - 1
      else - int (floorlog 2 (nat (\<lceil>1 / \<bar>x\<bar>\<rceil> - 1))))"

definition fl64 :: "real \<Rightarrow> real" where
  "fl64 x =
     (if x = 0 then 0
      else let e = max (binade x) (- 1022) - 52
           in of_int (round_half_even (x / 2 powi e)) * 2 powi e)"

section \<open>The specification's formulas\<close>

text \<open>The definitions of this section follow the words of the specification, not the
  code; the theorems below compare them with the code.\<close>

subsection \<open>Sub-scores and composite score\<close>

definition spec_heat_risk :: "real \<Rightarrow> real" where
  "spec_heat_risk temp =
     (let base = (if temp < 95 then 0 else min 1 ((temp - 95) / 15));
          bumped = (if temp \<ge> 100 then min 1 (base + 0.2) else base)
      in if temp \<ge> 105 then min 1 (bumped + 0.3) else bumped)"

definition spec_infra_risk :: "real \<Rightarrow> real" where
  "spec_infra_risk power_demand =
     (if power_demand < 1800 then 0 else min 1 ((power_demand - 1800) / 400))"

definition spec_flood_risk :: "real \<Rightarrow> real" where
  "spec_flood_risk precip = (if precip < 2.0 then 0 else min 1 (precip / 5.0))"

definition spec_drought_stress :: "real \<Rightarrow> real \<Rightarrow> real" where
  "spec_drought_stress temp precip = (if temp > 95 \<and> precip < 0.5 then 0.3 else 0)"

definition spec_humidity_factor :: "real \<Rightarrow> real \<Rightarrow> real" where
  "spec_humidity_factor temp humidity = (if temp > 90 \<and> humidity > 70 then 1.3 else 1.0)"

definition spec_soil_factor :: "real \<Rightarrow> real" where
  "spec_soil_factor soil_moisture = (if soil_moisture < 20 then 1.2 else 1.0)"

definition spec_compound_multiplier :: "real \<Rightarrow> real \<Rightarrow> real" where
  "spec_compound_multiplier heat_risk infra_risk =
     (if heat_risk > 0.5 \<and> infra_risk > 0.5 then 1.5 else 1.0)"

definition spec_env_stress :: "real \<Rightarrow> real \<Rightarrow> real \<Rightarrow> real \<Rightarrow> real" where
  "spec_env_stress temp precip humidity soil_moisture =
     (spec_drought_stress temp precip + (spec_humidity_factor temp humidity - 1)
        + (spec_soil_factor soil_moisture - 1)) * 0.3"

definition spec_risk_score :: "real \<Rightarrow> real \<Rightarrow> real \<Rightarrow> real \<Rightarrow> real \<Rightarrow> real" where
  "spec_risk_score temp precip humidity power_demand soil_moisture =
     min 1
       ((max (spec_heat_risk temp) (spec_flood_risk precip)
          + spec_infra_risk power_demand * 0.6
          + spec_env_stress temp precip humidity soil_moisture)
        * spec_compound_multiplier (spec_heat_risk temp) (spec_infra_risk power_demand))"

subsection \<open>The formulas in the arithmetic of doubles\<close>

text \<open>The same formulas, from the specification's words, on Python numbers and with the
  operations of the machine.\<close>

definition spec_heat_risk_fl :: "(real \<Rightarrow> real) \<Rightarrow> pynum \<Rightarrow> real" where
  "spec_heat_risk_fl fl temp =
     (let base = (if val temp < 95 then 0
                  else min 1 (num_truediv fl (num_sub fl temp (PyInt 95)) (PyInt 15)));
          bumped = (if val temp \<ge> 100 then min 1 (float_add fl base (fl 0.2)) else base)
      in if val temp \<ge> 105 then min 1 (float_add fl bumped (fl 0.3)) else bumped)"

definition spec_infra_risk_fl :: "(real \<Rightarrow> real) \<Rightarrow> pynum \<Rightarrow> real" where
  "spec_infra_risk_fl fl power_demand =
     (if val power_demand < 1800 then 0
      else min 1 (num_truediv fl (num_sub fl power_demand (PyInt 1800)) (PyInt 400)))"

definition spec_flood_risk_fl :: "(real \<Rightarrow> real) \<Rightarrow> pynum \<Rightarrow> real" where
  "spec_flood_risk_fl fl precip =
     (if val precip < 2.0 then 0 else min 1 (num_truediv fl precip (PyFloat 5.0)))"

definition spec_drought_stress_fl :: "(real \<Rightarrow> real) \<Rightarrow> pynum \<Rightarrow> pynum \<Rightarrow> real" where
  "spec_drought_stress_fl fl temp precip =
     (if val temp > 95 \<and> val precip < 0.5 then fl 0.3 else 0)"

definition spec_humidity_factor_fl :: "(real \<Rightarrow> real) \<Rightarrow> pynum \<Rightarrow> pynum \<Rightarrow> real" where
  "spec_humidity_factor_fl fl temp humidity =
     (if val temp > 90 \<and> val humidity > 70 then fl 1.3 else 1.0)"

definition spec_soil_factor_fl :: "(real \<Rightarrow> real) \<Rightarrow> pynum \<Rightarrow> real" where
  "spec_soil_factor_fl fl soil_moisture = (if val soil_moisture < 20 then fl 1.2 else 1.0)"

definition spec_env_stress_fl ::
  "(real \<Rightarrow> real) \<Rightarrow> pynum \<Rightarrow> pynum \<Rightarrow> pynum \<Rightarrow> pynum \<Rightarrow> real" where
  "spec_env_stress_fl fl temp precip humidity soil_moisture =
     float_mul fl
       (float_add fl
          (float_add fl (spec_drought_stress_fl fl temp precip)
             (float_sub fl (spec_humidity_factor_fl fl temp humidity) 1))
          (float_sub fl (spec_soil_factor_fl fl soil_moisture) 1))
       (fl 0.3)"

definition spec_risk_score_fl ::
  "(real \<Rightarrow> real) \<Rightarrow> pynum \<Rightarrow> pynum \<Rightarrow> pynum \<Rightarrow> pynum \<Rightarrow> pynum \<Rightarrow> real" where
  "spec_risk_score_fl fl temp precip humidity power_demand soil_moisture =
     min 1
       (float_mul fl
          (float_add fl
             (float_add fl
                (max (spec_heat_risk_fl fl temp) (spec_flood_risk_fl fl precip))
                (float_mul fl (spec_infra_risk_fl fl power_demand) (fl 0.6)))
             (spec_env_stress_fl fl temp precip humidity soil_moisture))
          (spec_compound_multiplier (spec_heat_risk_fl fl temp)
             (spec_infra_risk_fl fl power_demand)))"

text \<open>The confidence of the specification, \<open>min(0.95, 0.7 + riskScore * 0.25)\<close>.\<close>

definition spec_confidence_fl :: "(real \<Rightarrow> real) \<Rightarrow> real \<Rightarrow> real" where
  "spec_confidence_fl fl risk_score =
     min (fl 0.95) (float_add fl (fl 0.7) (float_mul fl risk_score 0.25))"

subsection \<open>Risk level buckets\<close>


subsection \<open>Recommendations\<close>

text \<open>The tier block selected by the risk level, and the conditional strings in their
  fixed order.\<close>

definition spec_tier_block :: "string \<Rightarrow> string list" where
  "spec_tier_block risk_level =
     (if risk_level = ''Extreme'' then extreme_actions
      else if risk_level = ''High'' then high_actions
      else if risk_level = ''Moderate'' then moderate_actions
      else [])"

definition spec_conditional_appends :: "real \<Rightarrow> real \<Rightarrow> real \<Rightarrow> string list" where
  "spec_conditional_appends temp precip power_demand =
     (if temp > 100 then [cancel_outdoor_activities] else [])
     @ (if power_demand > 1850 then [grid_stress] else [])
     @ (if precip > 3.0 then [flood_drainage] else [])"

subsection \<open>Auxiliary notions for the statements\<close>

text \<open>Order on the results of two runs, both of which must have returned.\<close>

fun le_result :: "real raising \<Rightarrow> real raising \<Rightarrow> bool" where
  "le_result (Inr a) (Inr b) = (a \<le> b)"
| "le_result _ _ = False"

text \<open>The inputs on which a comparison that the code evaluates meets a value that is
  not a number: temperature, power demand, precipitation or soil moisture is not a
  number, or humidity is not a number and the temperature is above 90 (the comparison
  with \<open>humidity\<close> stands behind \<open>temp > 90 and\<close>, so it is evaluated only then).\<close>

definition non_numeric :: "pyval \<Rightarrow> bool" where
  "non_numeric v = (case v of Num _ \<Rightarrow> False | _ \<Rightarrow> True)"

definition coercion_fails :: "(string \<rightharpoonup> pyval) \<Rightarrow> bool" where
  "coercion_fails input_data =
     (let temp = dict_get input_data ''temperature'' (Num (PyInt 75));
          precip = dict_get input_data ''precipitation'' (Num (PyFloat 0.1));
          humidity = dict_get input_data ''humidity'' (Num (PyInt 50));
          power_demand = dict_get input_data ''power_demand'' (Num (PyInt 1500));
          soil_moisture = dict_get input_data ''soil_moisture'' (Num (PyInt 30))
      in non_numeric temp \<or> non_numeric power_demand \<or> non_numeric precip
         \<or> non_numeric soil_moisture
         \<or> (non_numeric humidity \<and> (case temp of Num n \<Rightarrow> 90 < val n | _ \<Rightarrow> True)))"

text \<open>What the statements on ranges ask of the rounding \<open>fl\<close>; rounding to the nearest
  double has these four properties: it is monotone, it leaves a double unchanged, it
  is exact on the integers up to \<open>2^53\<close>, and on the range of the normal doubles its
  relative error is at most \<open>2^-53\<close>.\<close>

definition standard_rounding :: "(real \<Rightarrow> real) \<Rightarrow> bool" where
  "standard_rounding fl =
     ((\<forall>x y. x \<le> y \<longrightarrow> fl x \<le> fl y)
      \<and> (\<forall>x. fl (fl x) = fl x)
      \<and> (\<forall>k::int. \<bar>k\<bar> \<le> 2 ^ 53 \<longrightarrow> fl (of_int k) = of_int k)
      \<and> (\<forall>x. 1 / 2 ^ 1022 \<le> \<bar>x\<bar> \<and> \<bar>x\<bar> \<le> 2 ^ 1023 \<longrightarrow> \<bar>fl x - x\<bar> \<le> \<bar>x\<bar> / 2 ^ 53))"

text \<open>\<open>k\<close> is \<open>y\<close> rounded to an integer, ties to even.\<close>

definition nearest_even :: "real \<Rightarrow> int \<Rightarrow> bool" where
  "nearest_even y k =
     (\<bar>y - of_int k\<bar> \<le> 1 / 2 \<and> (\<bar>y - of_int k\<bar> < 1 / 2 \<or> even k))"

text \<open>An input with a reading that is not a number.\<close>

definition has_non_numeric_reading :: "(string \<rightharpoonup> pyval) \<Rightarrow> bool" where
  "has_non_numeric_reading input_data =
     (non_numeric (dict_get input_data ''temperature'' (Num (PyInt 75)))
      \<or> non_numeric (dict_get input_data ''precipitation'' (Num (PyFloat 0.1)))
      \<or> non_numeric (dict_get input_data ''humidity'' (Num (PyInt 50)))
      \<or> non_numeric (dict_get input_data ''power_demand'' (Num (PyInt 1500)))
      \<or> non_numeric (dict_get input_data ''soil_moisture'' (Num (PyInt 30))))"

section \<open>Auxiliary lemmas\<close>

lemma bind_exc_simps:
  "bind_exc (Inr x) f = f x"
  "bind_exc (Inl e) f = Inl e"
  by (simp_all add: bind_exc_def)

lemma py_num_simps:
  "py_ge (Num n) c = Inr (val c \<le> val n)"
  "py_gt (Num n) c = Inr (val c < val n)"
  "py_lt (Num n) c = Inr (val n < val c)"
  "py_sub (Num n) c = Inr (val n - val c)"
  "py_truediv (Num n) c = Inr (val n / val c)"
  by (simp_all add: py_ge_def py_gt_def py_lt_def py_sub_def py_truediv_def py_binop_def)

lemma py_and_simps:
  "py_and (Inr a) (Inr b) = Inr (a \<and> b)"
  by (simp_all add: py_and_def bind_exc_def)

lemma heat_numeric: "heat_risk_component (Num t) = Inr (spec_heat_risk (val t))"
  by (auto simp add: heat_risk_component_def spec_heat_risk_def py_num_simps bind_exc_simps Let_def)

lemma infra_numeric: "infra_risk_component (Num d) = Inr (spec_infra_risk (val d))"
  by (auto simp add: infra_risk_component_def spec_infra_risk_def py_num_simps bind_exc_simps
      infrastructure_critical_threshold_def)

lemma flood_numeric: "flood_risk_component (Num p) = Inr (spec_flood_risk (val p))"
  by (auto simp add: flood_risk_component_def spec_flood_risk_def py_num_simps bind_exc_simps
      flood_threshold_precipitation_def)

lemma drought_numeric:
  "drought_stress_component (Num t) (Num p) = Inr (spec_drought_stress (val t) (val p))"
  by (simp add: drought_stress_component_def spec_drought_stress_def py_num_simps
      py_and_simps bind_exc_simps)

lemma humidity_numeric:
  "humidity_factor_component (Num t) (Num h) = Inr (spec_humidity_factor (val t) (val h))"
  by (simp add: humidity_factor_component_def spec_humidity_factor_def py_num_simps
      py_and_simps bind_exc_simps)

lemma soil_numeric: "soil_factor_component (Num m) = Inr (spec_soil_factor (val m))"
  by (simp add: soil_factor_component_def spec_soil_factor_def py_num_simps bind_exc_simps)

lemma calculate_numeric:
  "calculate_risk_score (Num t) (Num p) (Num h) (Num d) (Num m) =
     Inr (spec_risk_score (val t) (val p) (val h) (val d) (val m))"
  by (simp add: calculate_risk_score_def heat_numeric infra_numeric flood_numeric
      drought_numeric humidity_numeric soil_numeric bind_exc_simps combined_risk_def
      environmental_stress_def compound_multiplier_def spec_risk_score_def
      spec_env_stress_def spec_compound_multiplier_def Let_def)

lemma dict_get_observation:
  "dict_get (observation t p h d m) ''temperature'' x = Num t"
  "dict_get (observation t p h d m) ''precipitation'' x = Num p"
  "dict_get (observation t p h d m) ''humidity'' x = Num h"
  "dict_get (observation t p h d m) ''power_demand'' x = Num d"
  "dict_get (observation t p h d m) ''soil_moisture'' x = Num m"
  by (simp_all add: dict_get_def observation_def)

lemma detect_numeric:
  "detect_anomaly (Num t) (Num p) (Num h) (Num d) =
     Inr (val t > 103 \<or> val p > 4.0 \<or> val d > 1900 \<or> (val t > 100 \<and> val h > 80)
          \<or> (val t > 95 \<and> val p > 3.0))"
  by (simp add: detect_anomaly_def py_num_simps py_and_simps bind_exc_simps)

lemma recommendations_numeric:
  "generate_recommendations lvl (Num t) (Num p) (Num d) =
     Inr (spec_tier_block lvl @ spec_conditional_appends (val t) (val p) (val d))"
  by (simp add: generate_recommendations_def py_num_simps bind_exc_simps spec_tier_block_def
      spec_conditional_appends_def Let_def)

lemma impact_numeric:
  "assess_infrastructure_impact (Num d) =
     Inr (if val d > 1900 then ''Critical'' else if val d > 1800 then ''High''
          else if val d > 1600 then ''Moderate'' else ''Low'')"
  by (simp add: assess_infrastructure_impact_def py_num_simps bind_exc_simps)

lemma try_body_numeric:
  "try_body now (observation t p h d m) =
     (let s = spec_risk_score (val t) (val p) (val h) (val d) (val m) in
      Inr [(''risk_score'', FFloat (py_round s 3)),
           (''risk_level'', FStr (get_risk_level s)),
           (''is_anomaly'', FBool (val t > 103 \<or> val p > 4.0 \<or> val d > 1900
               \<or> (val t > 100 \<and> val h > 80) \<or> (val t > 95 \<and> val p > 3.0))),
           (''recommendations'',
              FList (spec_tier_block (get_risk_level s) @ spec_conditional_appends (val t) (val p) (val d))),
           (''confidence'', FFloat (py_round (min 0.95 (0.7 + s * 0.25)) 3)),
           (''infrastructure_impact'',
              FStr (if val d > 1900 then ''Critical'' else if val d > 1800 then ''High''
                    else if val d > 1600 then ''Moderate'' else ''Low'')),
           (''analysis_time'', FStr now)])"
  unfolding try_body_def dict_get_observation Let_def calculate_numeric detect_numeric
    recommendations_numeric impact_numeric bind_exc_simps
  by (rule refl)

lemma predict_numeric:
  "predict_compound_risk now (observation t p h d m) =
     (let s = spec_risk_score (val t) (val p) (val h) (val d) (val m) in
      [(''risk_score'', FFloat (py_round s 3)),
           (''risk_level'', FStr (get_risk_level s)),
           (''is_anomaly'', FBool (val t > 103 \<or> val p > 4.0 \<or> val d > 1900
               \<or> (val t > 100 \<and> val h > 80) \<or> (val t > 95 \<and> val p > 3.0))),
           (''recommendations'',
              FList (spec_tier_block (get_risk_level s) @ spec_conditional_appends (val t) (val p) (val d))),
           (''confidence'', FFloat (py_round (min 0.95 (0.7 + s * 0.25)) 3)),
           (''infrastructure_impact'',
              FStr (if val d > 1900 then ''Critical'' else if val d > 1800 then ''High''
                    else if val d > 1600 then ''Moderate'' else ''Low'')),
           (''analysis_time'', FStr now)])"
  by (simp add: predict_compound_risk_def try_body_numeric Let_def)

lemma spec_heat_risk_range: "0 \<le> spec_heat_risk t \<and> spec_heat_risk t \<le> 1"
  by (auto simp add: spec_heat_risk_def Let_def)

lemma spec_infra_risk_range: "0 \<le> spec_infra_risk d \<and> spec_infra_risk d \<le> 1"
  by (auto simp add: spec_infra_risk_def)

lemma spec_flood_risk_range: "0 \<le> spec_flood_risk p \<and> spec_flood_risk p \<le> 1"
  by (auto simp add: spec_flood_risk_def)

lemma spec_env_stress_nonneg: "0 \<le> spec_env_stress t p h m"
  by (simp add: spec_env_stress_def spec_drought_stress_def spec_humidity_factor_def
      spec_soil_factor_def)

lemma spec_compound_multiplier_pos: "0 < spec_compound_multiplier a b"
  by (simp add: spec_compound_multiplier_def)

lemma spec_total_nonneg:
  "0 \<le> max (spec_heat_risk t) (spec_flood_risk p) + spec_infra_risk d * 0.6
         + spec_env_stress t p h m"
proof -
  have "0 \<le> max (spec_heat_risk t) (spec_flood_risk p)"
    using spec_heat_risk_range [of t] by (simp add: le_max_iff_disj)
  moreover have "0 \<le> spec_infra_risk d * 0.6"
    using spec_infra_risk_range [of d] by simp
  ultimately show ?thesis
    using spec_env_stress_nonneg [of t p h m] by linarith
qed



lemma bump_mono:
  fixes x y k c t1 t2 :: real
  assumes "x \<le> y" and "0 \<le> k" and "t1 \<le> t2" and "x \<le> 1"
  shows "(if c \<le> t1 then min 1 (x + k) else x) \<le> (if c \<le> t2 then min 1 (y + k) else y)"
  using assms by (auto simp add: min_def)

lemma bump_le_1:
  fixes x k c t :: real
  shows "x \<le> 1 \<Longrightarrow> (if c \<le> t then min 1 (x + k) else x) \<le> 1"
  by simp

lemma heat_base_mono:
  fixes t1 t2 :: real
  assumes "t1 \<le> t2"
  shows "(if t1 < 95 then 0 else min 1 ((t1 - 95) / 15))
         \<le> (if t2 < 95 then 0 else min 1 ((t2 - 95) / 15))"
  using assms by (auto simp add: min_def)

lemma heat_base_le_1:
  fixes t :: real
  shows "(if t < 95 then 0 else min 1 ((t - 95) / 15)) \<le> 1"
  by simp

lemma spec_heat_risk_mono:
  assumes "t1 \<le> t2"
  shows "spec_heat_risk t1 \<le> spec_heat_risk t2"
proof -
  let ?b = "\<lambda>t::real. if t < 95 then 0 else min 1 ((t - 95) / 15)"
  let ?c = "\<lambda>t::real. if 100 \<le> t then min 1 (?b t + 0.2) else ?b t"
  have s1: "?c t1 \<le> ?c t2"
    by (rule bump_mono [OF heat_base_mono [OF assms] _ assms heat_base_le_1]) simp
  have s2: "?c t1 \<le> 1"
    by (rule bump_le_1 [OF heat_base_le_1])
  have "(if 105 \<le> t1 then min 1 (?c t1 + 0.3) else ?c t1)
        \<le> (if 105 \<le> t2 then min 1 (?c t2 + 0.3) else ?c t2)"
    by (rule bump_mono [OF s1 _ assms s2]) simp
  then show ?thesis
    by (simp add: spec_heat_risk_def Let_def)
qed

lemma spec_compound_multiplier_mono:
  "a \<le> b \<Longrightarrow> spec_compound_multiplier a i \<le> spec_compound_multiplier b i"
  by (auto simp add: spec_compound_multiplier_def)

lemma spec_env_stress_mono:
  "t1 \<le> t2 \<Longrightarrow> spec_env_stress t1 p h m \<le> spec_env_stress t2 p h m"
  by (auto simp add: spec_env_stress_def spec_drought_stress_def spec_humidity_factor_def)

lemma spec_risk_score_mono:
  assumes "t1 \<le> t2"
  shows "spec_risk_score t1 p h d m \<le> spec_risk_score t2 p h d m"
proof -
  let ?A = "\<lambda>t. max (spec_heat_risk t) (spec_flood_risk p) + spec_infra_risk d * 0.6
         + spec_env_stress t p h m"
  let ?M = "\<lambda>t. spec_compound_multiplier (spec_heat_risk t) (spec_infra_risk d)"
  have hm: "spec_heat_risk t1 \<le> spec_heat_risk t2"
    using assms by (rule spec_heat_risk_mono)
  have "max (spec_heat_risk t1) (spec_flood_risk p) \<le> max (spec_heat_risk t2) (spec_flood_risk p)"
    using hm by (auto simp add: max_def)
  then have a: "?A t1 \<le> ?A t2"
    using spec_env_stress_mono [OF assms, of p h m] by linarith
  have b: "?M t1 \<le> ?M t2"
    using hm by (rule spec_compound_multiplier_mono)
  have c: "0 \<le> ?A t1"
    by (rule spec_total_nonneg)
  have d: "0 \<le> ?M t1"
    using spec_compound_multiplier_pos by (simp add: less_imp_le)
  have "?A t1 * ?M t1 \<le> ?A t2 * ?M t2"
    using a b c d by (rule mult_mono')
  then show ?thesis
    by (simp add: spec_risk_score_def)
qed

lemma round_half_even_lower: "of_int a \<le> x \<Longrightarrow> a \<le> round_half_even x"
proof -
  assume "of_int a \<le> x"
  then have "a \<le> \<lfloor>x\<rfloor>" by (simp add: le_floor_iff)
  then show ?thesis by (simp add: round_half_even_def Let_def)
qed

lemma round_half_even_upper: "x \<le> of_int b \<Longrightarrow> round_half_even x \<le> b"
proof (cases "x = of_int b")
  case True
  then show ?thesis by (simp add: round_half_even_def Let_def)
next
  case False
  assume "x \<le> of_int b"
  with False have "x < of_int b" by simp
  then have "\<lfloor>x\<rfloor> < b" by (simp add: floor_less_iff)
  then show ?thesis by (simp add: round_half_even_def Let_def)
qed

lemma round_half_even_mono: "x \<le> y \<Longrightarrow> round_half_even x \<le> round_half_even y"
proof (cases "\<lfloor>x\<rfloor> = \<lfloor>y\<rfloor>")
  case True
  assume "x \<le> y"
  then have "x - of_int \<lfloor>y\<rfloor> \<le> y - of_int \<lfloor>y\<rfloor>" by simp
  with True show ?thesis by (auto simp add: round_half_even_def Let_def)
next
  case False
  assume xy: "x \<le> y"
  then have "\<lfloor>x\<rfloor> \<le> \<lfloor>y\<rfloor>" by (rule floor_mono)
  with False have "\<lfloor>x\<rfloor> + 1 \<le> \<lfloor>y\<rfloor>" by simp
  moreover have "round_half_even x \<le> \<lfloor>x\<rfloor> + 1"
    by (simp add: round_half_even_def Let_def)
  moreover have "\<lfloor>y\<rfloor> \<le> round_half_even y"
    by (simp add: round_half_even_def Let_def)
  ultimately show ?thesis by linarith
qed

lemma py_round_mono: "x \<le> y \<Longrightarrow> py_round x n \<le> py_round y n"
  by (simp add: py_round_def round_half_even_mono divide_right_mono)

lemma field_predict_numeric:
  "field (predict_compound_risk now (observation t p h d m)) ''risk_score'' =
     Some (FFloat (py_round (spec_risk_score (val t) (val p) (val h) (val d) (val m)) 3))"
  "field (predict_compound_risk now (observation t p h d m)) ''risk_level'' =
     Some (FStr (get_risk_level (spec_risk_score (val t) (val p) (val h) (val d) (val m))))"
  "field (predict_compound_risk now (observation t p h d m)) ''is_anomaly'' =
     Some (FBool (val t > 103 \<or> val p > 4.0 \<or> val d > 1900 \<or> (val t > 100 \<and> val h > 80)
          \<or> (val t > 95 \<and> val p > 3.0)))"
  "field (predict_compound_risk now (observation t p h d m)) ''recommendations'' =
     Some (FList (spec_tier_block
                    (get_risk_level (spec_risk_score (val t) (val p) (val h) (val d) (val m)))
                  @ spec_conditional_appends (val t) (val p) (val d)))"
  "field (predict_compound_risk now (observation t p h d m)) ''confidence'' =
     Some (FFloat (py_round
       (min 0.95 (0.7 + spec_risk_score (val t) (val p) (val h) (val d) (val m) * 0.25)) 3))"
  by (simp_all add: field_def predict_numeric Let_def)

subsection \<open>When the body of the \<open>try\<close> statement raises\<close>

lemma py_non_num_simps:
  "py_ge (Str s) c = Inl (TypeError ''>='' ''str'' (num_type c))"
  "py_ge NoneVal c = Inl (TypeError ''>='' ''NoneType'' (num_type c))"
  "py_gt (Str s) c = Inl (TypeError ''>'' ''str'' (num_type c))"
  "py_gt NoneVal c = Inl (TypeError ''>'' ''NoneType'' (num_type c))"
  "py_lt (Str s) c = Inl (TypeError ''<'' ''str'' (num_type c))"
  "py_lt NoneVal c = Inl (TypeError ''<'' ''NoneType'' (num_type c))"
  by (simp_all add: py_ge_def py_gt_def py_lt_def py_binop_def)

lemma py_and_short_simps:
  "py_and (Inr False) b = Inr False"
  "py_and (Inr True) b = b"
  "py_and (Inl e) b = Inl e"
  by (simp_all add: py_and_def bind_exc_def)

lemma calculate_isl:
  "isl (calculate_risk_score t p h d m) =
     (non_numeric t \<or> non_numeric d \<or> non_numeric p \<or> non_numeric m
      \<or> (non_numeric h \<and> (case t of Num n \<Rightarrow> 90 < val n | _ \<Rightarrow> True)))"
proof (cases t)
  case (Num tn)
  note t = this
  show ?thesis
  proof (cases d)
    case (Num dn)
    note d = this
    show ?thesis
    proof (cases p)
      case (Num pn)
      note p = this
      show ?thesis
      proof (cases "90 < val tn")
        case True
        then show ?thesis
          unfolding t d p
          by (cases h; cases m)
            (simp_all add: calculate_risk_score_def heat_numeric infra_numeric flood_numeric
              drought_numeric humidity_numeric soil_numeric
              humidity_factor_component_def soil_factor_component_def
              py_num_simps py_non_num_simps py_and_short_simps bind_exc_simps
              non_numeric_def)
      next
        case False
        then show ?thesis
          unfolding t d p
          by (cases m)
            (simp_all add: calculate_risk_score_def heat_numeric infra_numeric flood_numeric
              drought_numeric
              humidity_factor_component_def soil_factor_component_def
              py_num_simps py_non_num_simps py_and_short_simps bind_exc_simps
              non_numeric_def)
      qed
    qed (simp_all add: t d calculate_risk_score_def heat_numeric infra_numeric
          flood_risk_component_def py_non_num_simps bind_exc_simps non_numeric_def)
  qed (simp_all add: t calculate_risk_score_def heat_numeric
        infra_risk_component_def py_non_num_simps bind_exc_simps non_numeric_def)
qed (simp_all add: calculate_risk_score_def heat_risk_component_def py_non_num_simps
      bind_exc_simps non_numeric_def)

lemma detect_returns:
  assumes "\<not> non_numeric h \<or> \<not> 90 < val tn"
  shows "\<exists>b. detect_anomaly (Num tn) (Num pn) h (Num dn) = Inr b"
proof (cases h)
  case (Num hn)
  then show ?thesis by (simp add: detect_numeric)
next
  case (Str x)
  with assms have "\<not> 100 < val tn" by (simp add: non_numeric_def)
  then show ?thesis
    by (simp add: detect_anomaly_def py_num_simps py_and_simps py_and_short_simps
        bind_exc_simps)
next
  case NoneVal
  with assms have "\<not> 100 < val tn" by (simp add: non_numeric_def)
  then show ?thesis
    by (simp add: detect_anomaly_def py_num_simps py_and_simps py_and_short_simps
        bind_exc_simps)
qed

lemma body_isl:
  "isl (bind_exc (calculate_risk_score t p h d m) (\<lambda>s.
        bind_exc (detect_anomaly t p h d) (\<lambda>a.
        bind_exc (generate_recommendations (L s) t p d) (\<lambda>r.
        bind_exc (assess_infrastructure_impact d) (\<lambda>i. Inr (F s a r i))))))
   = isl (calculate_risk_score t p h d m)"
proof (cases "isl (calculate_risk_score t p h d m)")
  case True
  then show ?thesis by (auto simp add: isl_def bind_exc_simps)
next
  case False
  then obtain s where s: "calculate_risk_score t p h d m = Inr s"
    by (cases "calculate_risk_score t p h d m") simp_all
  from False have nf: "\<not> (non_numeric t \<or> non_numeric d \<or> non_numeric p \<or> non_numeric m
      \<or> (non_numeric h \<and> (case t of Num n \<Rightarrow> 90 < val n | _ \<Rightarrow> True)))"
    by (simp add: calculate_isl)
  then obtain tn dn pn where n: "t = Num tn" "d = Num dn" "p = Num pn"
    by (cases t; cases d; cases p) (simp_all add: non_numeric_def)
  from nf n have "\<not> non_numeric h \<or> \<not> 90 < val tn" by simp
  then obtain b where b: "detect_anomaly (Num tn) (Num pn) h (Num dn) = Inr b"
    using detect_returns by blast
  show ?thesis
    using False
    by (simp add: s [unfolded n] n b recommendations_numeric impact_numeric bind_exc_simps)
qed

lemma try_body_raises_iff: "isl (try_body now input_data) = coercion_fails input_data"
  unfolding try_body_def coercion_fails_def Let_def body_isl calculate_isl
  by (rule refl)

lemma try_body_keys:
  assumes "try_body now input_data = Inr result"
  shows "map fst result =
           [''risk_score'', ''risk_level'', ''is_anomaly'', ''recommendations'',
            ''confidence'', ''infrastructure_impact'', ''analysis_time'']"
  using assms
  by (auto simp add: try_body_def Let_def bind_exc_def split: sum.splits)

lemma predict_degraded:
  assumes "try_body now input_data = Inl e"
  shows "predict_compound_risk now input_data =
           [(''error'', FStr (''Risk prediction failed: '' @ str_exc e)),
            (''risk_score'', FFloat 0.0), (''risk_level'', FStr ''Unknown'')]"
  using assms by (simp add: predict_compound_risk_def)

lemma predict_success:
  assumes "try_body now input_data = Inr result"
  shows "predict_compound_risk now input_data = result"
  using assms by (simp add: predict_compound_risk_def)

subsection \<open>The model in the arithmetic of doubles\<close>

lemma py_fl_num_simps:
  "py_sub_fl fl (Num n) c = Inr (num_sub fl n c)"
  "py_truediv_fl fl (Num n) c = Inr (num_truediv fl n c)"
  by (simp_all add: py_sub_fl_def py_truediv_fl_def)

lemma heat_fl_numeric:
  "heat_risk_component_fl fl (Num t) = Inr (spec_heat_risk_fl fl t)"
  by (auto simp add: heat_risk_component_fl_def spec_heat_risk_fl_def py_num_simps
      py_fl_num_simps bind_exc_simps Let_def)

lemma infra_fl_numeric:
  "infra_risk_component_fl fl (Num d) = Inr (spec_infra_risk_fl fl d)"
  by (auto simp add: infra_risk_component_fl_def spec_infra_risk_fl_def py_num_simps
      py_fl_num_simps bind_exc_simps infrastructure_critical_threshold_def)

lemma flood_fl_numeric:
  "flood_risk_component_fl fl (Num p) = Inr (spec_flood_risk_fl fl p)"
  by (auto simp add: flood_risk_component_fl_def spec_flood_risk_fl_def py_num_simps
      py_fl_num_simps bind_exc_simps flood_threshold_precipitation_def)

lemma drought_fl_numeric:
  "drought_stress_component_fl fl (Num t) (Num p) = Inr (spec_drought_stress_fl fl t p)"
  by (simp add: drought_stress_component_fl_def spec_drought_stress_fl_def py_num_simps
      py_and_simps bind_exc_simps)

lemma humidity_fl_numeric:
  "humidity_factor_component_fl fl (Num t) (Num h) = Inr (spec_humidity_factor_fl fl t h)"
  by (simp add: humidity_factor_component_fl_def spec_humidity_factor_fl_def py_num_simps
      py_and_simps bind_exc_simps)

lemma soil_fl_numeric:
  "soil_factor_component_fl fl (Num m) = Inr (spec_soil_factor_fl fl m)"
  by (simp add: soil_factor_component_fl_def spec_soil_factor_fl_def py_num_simps
      bind_exc_simps)

lemma calculate_fl_numeric:
  "calculate_risk_score_fl fl (Num t) (Num p) (Num h) (Num d) (Num m) =
     Inr (spec_risk_score_fl fl t p h d m)"
  by (simp add: calculate_risk_score_fl_def heat_fl_numeric infra_fl_numeric
      flood_fl_numeric drought_fl_numeric humidity_fl_numeric soil_fl_numeric
      bind_exc_simps combined_risk_fl_def environmental_stress_fl_def
      compound_multiplier_def spec_risk_score_fl_def spec_env_stress_fl_def
      spec_compound_multiplier_def Let_def)

lemma try_body_fl_numeric:
  "try_body_fl fl now (observation t p h d m) =
     (let s = spec_risk_score_fl fl t p h d m in
      Inr [(''risk_score'', FFloat (py_round_fl fl s 3)),
           (''risk_level'', FStr (get_risk_level_fl fl s)),
           (''is_anomaly'', FBool (val t > 103 \<or> val p > 4.0 \<or> val d > 1900
               \<or> (val t > 100 \<and> val h > 80) \<or> (val t > 95 \<and> val p > 3.0))),
           (''recommendations'',
              FList (spec_tier_block (get_risk_level_fl fl s)
                     @ spec_conditional_appends (val t) (val p) (val d))),
           (''confidence'', FFloat (py_round_fl fl (spec_confidence_fl fl s) 3)),
           (''infrastructure_impact'',
              FStr (if val d > 1900 then ''Critical'' else if val d > 1800 then ''High''
                    else if val d > 1600 then ''Moderate'' else ''Low'')),
           (''analysis_time'', FStr now)])"
  unfolding try_body_fl_def dict_get_observation Let_def calculate_fl_numeric detect_numeric
    recommendations_numeric impact_numeric bind_exc_simps spec_confidence_fl_def
  by (rule refl)

lemma field_predict_fl_numeric:
  "field (predict_compound_risk_fl fl now (observation t p h d m)) ''risk_score'' =
     Some (FFloat (py_round_fl fl (spec_risk_score_fl fl t p h d m) 3))"
  "field (predict_compound_risk_fl fl now (observation t p h d m)) ''risk_level'' =
     Some (FStr (get_risk_level_fl fl (spec_risk_score_fl fl t p h d m)))"
  "field (predict_compound_risk_fl fl now (observation t p h d m)) ''confidence'' =
     Some (FFloat (py_round_fl fl
       (spec_confidence_fl fl (spec_risk_score_fl fl t p h d m)) 3))"
  by (simp_all add: field_def predict_compound_risk_fl_def try_body_fl_numeric Let_def)

lemma exact_arith_simps:
  "to_float (\<lambda>x. x) n = val n"
  "val (num_sub (\<lambda>x. x) a b) = val a - val b"
  "num_truediv (\<lambda>x. x) a b = val a / val b"
  "float_add (\<lambda>x. x) x y = x + y"
  "float_sub (\<lambda>x. x) x y = x - y"
  "float_mul (\<lambda>x. x) x y = x * y"
  by (simp_all add: to_float_def num_sub_def num_truediv_def float_add_def float_sub_def
      float_mul_def split: pynum.splits)

lemma spec_fl_exact:
  "spec_heat_risk_fl (\<lambda>x. x) t = spec_heat_risk (val t)"
  "spec_infra_risk_fl (\<lambda>x. x) d = spec_infra_risk (val d)"
  "spec_flood_risk_fl (\<lambda>x. x) p = spec_flood_risk (val p)"
  "spec_drought_stress_fl (\<lambda>x. x) t p = spec_drought_stress (val t) (val p)"
  "spec_humidity_factor_fl (\<lambda>x. x) t h = spec_humidity_factor (val t) (val h)"
  "spec_soil_factor_fl (\<lambda>x. x) m = spec_soil_factor (val m)"
  by (simp_all add: spec_heat_risk_fl_def spec_heat_risk_def spec_infra_risk_fl_def
      spec_infra_risk_def spec_flood_risk_fl_def spec_flood_risk_def
      spec_drought_stress_fl_def spec_drought_stress_def spec_humidity_factor_fl_def
      spec_humidity_factor_def spec_soil_factor_fl_def spec_soil_factor_def
      exact_arith_simps Let_def)

lemma spec_risk_score_fl_exact:
  "spec_risk_score_fl (\<lambda>x. x) t p h d m =
     spec_risk_score (val t) (val p) (val h) (val d) (val m)"
  by (simp add: spec_risk_score_fl_def spec_risk_score_def spec_env_stress_fl_def
      spec_env_stress_def spec_fl_exact exact_arith_simps)

lemma round_half_even_nearest: "nearest_even y (round_half_even y)"
proof -
  have "of_int \<lfloor>y\<rfloor> \<le> y" and "y < of_int \<lfloor>y\<rfloor> + 1"
    by linarith+
  then show ?thesis
    by (auto simp add: nearest_even_def round_half_even_def Let_def)
qed

lemma nearest_even_unique:
  assumes "nearest_even y k"
  shows "k = round_half_even y"
proof -
  have f: "of_int \<lfloor>y\<rfloor> \<le> y" "y < of_int \<lfloor>y\<rfloor> + 1"
    by linarith+
  from assms have a: "\<bar>y - of_int k\<bar> \<le> 1 / 2"
    and b: "\<bar>y - of_int k\<bar> < 1 / 2 \<or> even k"
    by (simp_all add: nearest_even_def)
  from a f have "(of_int k :: real) < of_int (\<lfloor>y\<rfloor> + 2)"
    and "(of_int (\<lfloor>y\<rfloor> - 1) :: real) < of_int k"
    by (simp_all, linarith+)
  then have "k < \<lfloor>y\<rfloor> + 2" "\<lfloor>y\<rfloor> - 1 < k"
    by (simp_all only: of_int_less_iff)
  then consider "k = \<lfloor>y\<rfloor>" | "k = \<lfloor>y\<rfloor> + 1"
    by linarith
  then show ?thesis
  proof cases
    case 1
    with a b show ?thesis
      by (auto simp add: round_half_even_def Let_def)
  next
    case 2
    with a b show ?thesis
      by (auto simp add: round_half_even_def Let_def)
  qed
qed

lemma py_round_fl_nearest:
  "\<exists>k. nearest_even (x * 1000) k \<and> py_round_fl fl x 3 = fl (of_int k / 1000)"
proof -
  have "nearest_even (x * 1000) (round_half_even (x * 1000))"
    by (rule round_half_even_nearest)
  moreover have "py_round_fl fl x 3 = fl (of_int (round_half_even (x * 1000)) / 1000)"
    by (simp add: py_round_fl_def)
  ultimately show ?thesis by blast
qed

lemma heat_fl_exact: "heat_risk_component_fl (\<lambda>x. x) temp = heat_risk_component temp"
proof (cases temp)
  case (Num n)
  then show ?thesis
    by (simp add: heat_fl_numeric heat_numeric spec_fl_exact)
qed (simp_all add: heat_risk_component_fl_def heat_risk_component_def py_non_num_simps
      bind_exc_simps)

lemma infra_fl_exact: "infra_risk_component_fl (\<lambda>x. x) d = infra_risk_component d"
proof (cases d)
  case (Num n)
  then show ?thesis
    by (simp add: infra_fl_numeric infra_numeric spec_fl_exact)
qed (simp_all add: infra_risk_component_fl_def infra_risk_component_def py_non_num_simps
      bind_exc_simps)

lemma flood_fl_exact: "flood_risk_component_fl (\<lambda>x. x) p = flood_risk_component p"
proof (cases p)
  case (Num n)
  then show ?thesis
    by (simp add: flood_fl_numeric flood_numeric spec_fl_exact)
qed (simp_all add: flood_risk_component_fl_def flood_risk_component_def py_non_num_simps
      bind_exc_simps)

lemma calculate_fl_exact:
  "calculate_risk_score_fl (\<lambda>x. x) t p h d m = calculate_risk_score t p h d m"
  by (simp add: calculate_risk_score_fl_def calculate_risk_score_def heat_fl_exact
      infra_fl_exact flood_fl_exact drought_stress_component_fl_def
      drought_stress_component_def humidity_factor_component_fl_def
      humidity_factor_component_def soil_factor_component_fl_def soil_factor_component_def
      combined_risk_fl_def combined_risk_def environmental_stress_fl_def
      environmental_stress_def exact_arith_simps)

lemma predict_fl_exact:
  "predict_compound_risk_fl (\<lambda>x. x) now input_data = predict_compound_risk now input_data"
  by (simp add: predict_compound_risk_fl_def predict_compound_risk_def try_body_fl_def
      try_body_def calculate_fl_exact get_risk_level_fl_def get_risk_level_def
      risk_thresholds_fl_def risk_thresholds_def py_round_fl_def py_round_def
      exact_arith_simps)

lemma sr_mono: "standard_rounding fl \<Longrightarrow> x \<le> y \<Longrightarrow> fl x \<le> fl y"
  by (simp add: standard_rounding_def)

lemma sr_idem: "standard_rounding fl \<Longrightarrow> fl (fl x) = fl x"
  by (simp add: standard_rounding_def)

lemma sr_int:
  assumes "standard_rounding fl" and "\<bar>k\<bar> \<le> 2 ^ 53"
  shows "fl (of_int k) = of_int k"
  using assms by (simp add: standard_rounding_def)

lemma sr_zero: "standard_rounding fl \<Longrightarrow> fl 0 = 0"
  using sr_int [of fl 0] by simp

lemma sr_one: "standard_rounding fl \<Longrightarrow> fl 1 = 1"
  using sr_int [of fl 1] by simp

lemma sr_nonneg: "standard_rounding fl \<Longrightarrow> 0 \<le> x \<Longrightarrow> 0 \<le> fl x"
  using sr_mono [of fl 0 x] by (simp add: sr_zero)

lemma sr_near:
  assumes "standard_rounding fl" and "1 / 2 ^ 1022 \<le> \<bar>x\<bar>" and "\<bar>x\<bar> \<le> 2 ^ 1023"
  shows "\<bar>fl x - x\<bar> \<le> \<bar>x\<bar> / 2 ^ 53"
  using assms by (simp add: standard_rounding_def)

lemma sub_div_nonneg:
  assumes sr: "standard_rounding fl" and j: "\<bar>j\<bar> \<le> 2 ^ 53" and k: "0 < k" "k \<le> 2 ^ 53"
    and le: "of_int j \<le> val a"
  shows "0 \<le> num_truediv fl (num_sub fl a (PyInt j)) (PyInt k)"
proof (cases a)
  case (PyInt i)
  with le have "0 \<le> (of_int (i - j) :: real) / of_int k"
    using k by simp
  then have "0 \<le> fl (of_int (i - j) / of_int k)"
    by (rule sr_nonneg [OF sr])
  with PyInt show ?thesis
    by (simp add: num_sub_def num_truediv_def)
next
  case (PyFloat x)
  have fj: "fl (of_int j) = of_int j"
    using sr j by (rule sr_int)
  have fk: "fl (of_int k) = of_int k"
    using sr k by (intro sr_int) simp_all
  from PyFloat le have "0 \<le> x - of_int j" by simp
  then have "0 \<le> fl (x - of_int j)"
    by (rule sr_nonneg [OF sr])
  then have "0 \<le> fl (x - of_int j) / of_int k"
    using k by simp
  then have "0 \<le> fl (fl (x - of_int j) / of_int k)"
    by (rule sr_nonneg [OF sr])
  with PyFloat show ?thesis
    by (simp add: num_sub_def num_truediv_def to_float_def fj fk)
qed

lemma sr_mult_nonneg:
  assumes "standard_rounding fl" and "0 \<le> x" and "0 \<le> y"
  shows "0 \<le> float_mul fl x y"
proof -
  have "0 \<le> x * y" using assms(2,3) by simp
  then show ?thesis unfolding float_mul_def by (rule sr_nonneg [OF assms(1)])
qed

lemma sr_add_nonneg:
  assumes "standard_rounding fl" and "0 \<le> x" and "0 \<le> y"
  shows "0 \<le> float_add fl x y"
proof -
  have "0 \<le> x + y" using assms(2,3) by simp
  then show ?thesis unfolding float_add_def by (rule sr_nonneg [OF assms(1)])
qed

lemma bump_fl_range:
  assumes sr: "standard_rounding fl" and x: "0 \<le> x" "x \<le> 1" and k: "0 \<le> k"
  shows "0 \<le> (if c then min 1 (float_add fl x (fl k)) else x)
         \<and> (if c then min 1 (float_add fl x (fl k)) else x) \<le> 1"
proof -
  have "0 \<le> fl k" using sr k by (rule sr_nonneg)
  then have "0 \<le> float_add fl x (fl k)"
    using sr x(1) by (intro sr_add_nonneg)
  with x show ?thesis by simp
qed

lemma spec_heat_risk_fl_range:
  assumes sr: "standard_rounding fl"
  shows "0 \<le> spec_heat_risk_fl fl t \<and> spec_heat_risk_fl fl t \<le> 1"
proof -
  define b where "b = (if val t < 95 then 0
            else min 1 (num_truediv fl (num_sub fl t (PyInt 95)) (PyInt 15)))"
  have b: "0 \<le> b \<and> b \<le> 1"
    unfolding b_def using sub_div_nonneg [OF sr, of 95 15 t] by simp
  define c where "c = (if val t \<ge> 100 then min 1 (float_add fl b (fl 0.2)) else b)"
  have c: "0 \<le> c \<and> c \<le> 1"
    unfolding c_def using b by (intro bump_fl_range [OF sr]) simp_all
  have "0 \<le> (if val t \<ge> 105 then min 1 (float_add fl c (fl 0.3)) else c)
       \<and> (if val t \<ge> 105 then min 1 (float_add fl c (fl 0.3)) else c) \<le> 1"
    using c by (intro bump_fl_range [OF sr]) simp_all
  moreover have "spec_heat_risk_fl fl t =
      (if val t \<ge> 105 then min 1 (float_add fl c (fl 0.3)) else c)"
    by (simp only: spec_heat_risk_fl_def Let_def b_def c_def)
  ultimately show ?thesis
    by (simp only:)
qed

lemma spec_infra_risk_fl_range:
  assumes sr: "standard_rounding fl"
  shows "0 \<le> spec_infra_risk_fl fl d \<and> spec_infra_risk_fl fl d \<le> 1"
  using sub_div_nonneg [OF sr, of 1800 400 d]
  by (simp add: spec_infra_risk_fl_def)

lemma spec_flood_risk_fl_range:
  assumes sr: "standard_rounding fl"
  shows "0 \<le> spec_flood_risk_fl fl p \<and> spec_flood_risk_fl fl p \<le> 1"
proof (cases "val p < 2")
  case True
  then show ?thesis by (simp add: spec_flood_risk_fl_def)
next
  case False
  have "0 \<le> to_float fl p"
  proof (cases p)
    case (PyInt i)
    with False have "0 \<le> (of_int i :: real)" by simp
    then have "0 \<le> fl (of_int i)" by (rule sr_nonneg [OF sr])
    with PyInt show ?thesis by (simp add: to_float_def)
  next
    case (PyFloat x)
    with False show ?thesis by (simp add: to_float_def)
  qed
  then have "0 \<le> to_float fl p / 5" by simp
  then have "0 \<le> fl (to_float fl p / 5)" by (rule sr_nonneg [OF sr])
  then have "0 \<le> num_truediv fl p (PyFloat 5.0)"
    by (simp add: num_truediv_def to_float_def split: pynum.splits)
  with False show ?thesis by (simp add: spec_flood_risk_fl_def)
qed

lemma spec_env_stress_fl_nonneg:
  assumes sr: "standard_rounding fl"
  shows "0 \<le> spec_env_stress_fl fl t p h m"
proof -
  have one: "fl 1 = 1" using sr by (rule sr_one)
  have ds: "0 \<le> spec_drought_stress_fl fl t p"
    using sr_nonneg [OF sr, of "0.3"] by (simp add: spec_drought_stress_fl_def)
  have "1 \<le> fl 1.3" using sr_mono [OF sr, of 1 "1.3"] one by simp
  then have "0 \<le> spec_humidity_factor_fl fl t h - 1"
    by (simp add: spec_humidity_factor_fl_def)
  then have hf: "0 \<le> float_sub fl (spec_humidity_factor_fl fl t h) 1"
    unfolding float_sub_def by (rule sr_nonneg [OF sr])
  have "1 \<le> fl 1.2" using sr_mono [OF sr, of 1 "1.2"] one by simp
  then have "0 \<le> spec_soil_factor_fl fl m - 1"
    by (simp add: spec_soil_factor_fl_def)
  then have sf: "0 \<le> float_sub fl (spec_soil_factor_fl fl m) 1"
    unfolding float_sub_def by (rule sr_nonneg [OF sr])
  have f3: "0 \<le> fl 0.3" by (rule sr_nonneg [OF sr]) simp
  show ?thesis
    unfolding spec_env_stress_fl_def
    by (intro sr_mult_nonneg [OF sr] sr_add_nonneg [OF sr] ds hf sf f3)
qed

lemma spec_risk_score_fl_range:
  assumes sr: "standard_rounding fl"
  shows "0 \<le> spec_risk_score_fl fl t p h d m \<and> spec_risk_score_fl fl t p h d m \<le> 1"
proof -
  have hr: "0 \<le> spec_heat_risk_fl fl t"
    using spec_heat_risk_fl_range [OF sr] by simp
  have ir: "0 \<le> spec_infra_risk_fl fl d"
    using spec_infra_risk_fl_range [OF sr] by simp
  have pr: "0 \<le> max (spec_heat_risk_fl fl t) (spec_flood_risk_fl fl p)"
    using hr by (simp add: le_max_iff_disj)
  have f6: "0 \<le> fl 0.6" by (rule sr_nonneg [OF sr]) simp
  have cm: "0 \<le> spec_compound_multiplier (spec_heat_risk_fl fl t) (spec_infra_risk_fl fl d)"
    by (simp add: spec_compound_multiplier_def)
  have "0 \<le> float_mul fl
               (float_add fl
                 (float_add fl (max (spec_heat_risk_fl fl t) (spec_flood_risk_fl fl p))
                    (float_mul fl (spec_infra_risk_fl fl d) (fl 0.6)))
                 (spec_env_stress_fl fl t p h m))
               (spec_compound_multiplier (spec_heat_risk_fl fl t) (spec_infra_risk_fl fl d))"
    by (intro sr_mult_nonneg [OF sr] sr_add_nonneg [OF sr] pr ir f6 cm
        spec_env_stress_fl_nonneg [OF sr])
  then show ?thesis
    by (simp add: spec_risk_score_fl_def)
qed

lemma fl_between:
  assumes sr: "standard_rounding fl" and "a \<le> round_half_even (x * 1000)"
    and "round_half_even (x * 1000) \<le> b"
  shows "fl (of_int a / 1000) \<le> py_round_fl fl x 3 \<and> py_round_fl fl x 3 \<le> fl (of_int b / 1000)"
proof -
  have "(of_int a :: real) / 1000 \<le> of_int (round_half_even (x * 1000)) / 1000"
    using assms(2) by simp
  moreover have "(of_int (round_half_even (x * 1000)) :: real) / 1000 \<le> of_int b / 1000"
    using assms(3) by simp
  ultimately show ?thesis
    by (simp add: py_round_fl_def sr_mono [OF sr])
qed

lemma score_field_range:
  assumes sr: "standard_rounding fl" and "0 \<le> s" and "s \<le> 1"
  shows "0 \<le> py_round_fl fl s 3 \<and> py_round_fl fl s 3 \<le> 1"
proof -
  have "of_int 0 \<le> s * 1000" using assms(2) by simp
  then have l: "0 \<le> round_half_even (s * 1000)" by (rule round_half_even_lower)
  have "s * 1000 \<le> of_int 1000" using assms(3) by simp
  then have u: "round_half_even (s * 1000) \<le> 1000" by (rule round_half_even_upper)
  have "fl (of_int 0 / 1000) \<le> py_round_fl fl s 3
      \<and> py_round_fl fl s 3 \<le> fl (of_int 1000 / 1000)"
    using sr l u by (rule fl_between)
  then show ?thesis
    by (simp add: sr_zero [OF sr] sr_one [OF sr])
qed

lemma sr_close:
  assumes sr: "standard_rounding fl" and x: "1 / 2 ^ 1022 \<le> x" "x \<le> 1"
  shows "x - 1 / 10000 \<le> fl x \<and> fl x \<le> x + 1 / 10000"
proof -
  have pos: "0 \<le> x"
    using x(1) by (rule order_trans [rotated]) simp
  have "\<bar>fl x - x\<bar> \<le> \<bar>x\<bar> / 2 ^ 53"
    using sr x pos by (intro sr_near) simp_all
  moreover have "\<bar>x\<bar> / 2 ^ 53 \<le> 1 / 2 ^ 53"
    using x(2) pos by (simp add: divide_right_mono)
  moreover have "(1 :: real) / 2 ^ 53 \<le> 1 / 10000"
    by simp
  ultimately have "\<bar>fl x - x\<bar> \<le> 1 / 10000"
    by linarith
  then show ?thesis
    by linarith
qed

lemma sr_literals:
  assumes sr: "standard_rounding fl"
  shows "6999 / 10000 \<le> fl 0.7" and "fl 0.95 \<le> 9501 / 10000"
  using sr_close [OF sr, of "0.7"] sr_close [OF sr, of "0.95"] by simp_all

lemma spec_confidence_fl_range:
  assumes sr: "standard_rounding fl" and s: "0 \<le> s"
  shows "fl 0.7 \<le> spec_confidence_fl fl s \<and> spec_confidence_fl fl s \<le> fl 0.95"
proof -
  have "0 \<le> float_mul fl s 0.25"
    using sr s by (rule sr_mult_nonneg) simp
  then have "fl 0.7 \<le> fl 0.7 + float_mul fl s 0.25" by simp
  then have "fl (fl 0.7) \<le> fl (fl 0.7 + float_mul fl s 0.25)"
    by (rule sr_mono [OF sr])
  then have a: "fl 0.7 \<le> float_add fl (fl 0.7) (float_mul fl s 0.25)"
    by (simp add: sr_idem [OF sr] float_add_def)
  have b: "fl 0.7 \<le> fl 0.95"
    by (rule sr_mono [OF sr]) simp
  show ?thesis
    using a b by (simp add: spec_confidence_fl_def)
qed

lemma confidence_field_range:
  assumes sr: "standard_rounding fl" and s: "0 \<le> s"
  shows "fl 0.7 \<le> py_round_fl fl (spec_confidence_fl fl s) 3
         \<and> py_round_fl fl (spec_confidence_fl fl s) 3 \<le> fl 0.95"
proof -
  let ?c = "spec_confidence_fl fl s"
  have c: "fl 0.7 \<le> ?c \<and> ?c \<le> fl 0.95"
    using sr s by (rule spec_confidence_fl_range)
  have "699.9 \<le> ?c * 1000"
    using c sr_literals(1) [OF sr] by simp
  then have "round_half_even 699.9 \<le> round_half_even (?c * 1000)"
    by (rule round_half_even_mono)
  moreover have "round_half_even 699.9 = 700"
    by (simp add: round_half_even_def Let_def)
  ultimately have l: "700 \<le> round_half_even (?c * 1000)" by simp
  have "?c * 1000 \<le> 950.1"
    using c sr_literals(2) [OF sr] by simp
  then have "round_half_even (?c * 1000) \<le> round_half_even 950.1"
    by (rule round_half_even_mono)
  moreover have "round_half_even 950.1 = 950"
    by (simp add: round_half_even_def Let_def)
  ultimately have u: "round_half_even (?c * 1000) \<le> 950" by simp
  have "fl (of_int 700 / 1000) \<le> py_round_fl fl ?c 3
      \<and> py_round_fl fl ?c 3 \<le> fl (of_int 950 / 1000)"
    using sr l u by (rule fl_between)
  then show ?thesis by simp
qed

lemma standard_rounding_exact: "standard_rounding (\<lambda>x. x)"
  by (simp add: standard_rounding_def)

subsection \<open>Rounding to the nearest double is a standard rounding\<close>

lemma p2_less_iff: "(2 :: real) powi m < 2 powi n \<longleftrightarrow> m < n"
proof
  assume a: "(2 :: real) powi m < 2 powi n"
  show "m < n"
  proof (rule ccontr)
    assume "\<not> m < n"
    then have "n \<le> m" by simp
    then have "(2 :: real) powi n \<le> 2 powi m"
      by (rule power_int_increasing) simp
    with a show False by simp
  qed
next
  assume "m < n"
  then show "(2 :: real) powi m < 2 powi n"
    by (rule power_int_strict_increasing) simp
qed

lemma p2_le_iff: "(2 :: real) powi m \<le> 2 powi n \<longleftrightarrow> m \<le> n"
  using p2_less_iff [of n m] by (simp add: not_less [symmetric])

lemma p2_pos: "0 < (2 :: real) powi e"
  by simp

lemma p2_add: "(2 :: real) powi (m + n) = 2 powi m * 2 powi n"
  by (rule power_int_add) simp

lemma p2_diff: "(2 :: real) powi (m - n) = 2 powi m / 2 powi n"
  by (rule power_int_diff) simp

lemma p2_nat: "(2 :: real) powi int n = 2 ^ n"
  by simp

lemma binade_bounds:
  assumes "x \<noteq> 0"
  shows "2 powi binade x \<le> \<bar>x\<bar> \<and> \<bar>x\<bar> < 2 powi (binade x + 1)"
proof (cases "1 \<le> \<bar>x\<bar>")
  case True
  define n where "n = nat \<lfloor>\<bar>x\<bar>\<rfloor>"
  define w where "w = floorlog 2 n"
  have n1: "1 \<le> n" using True by (simp add: n_def le_nat_iff)
  then have b: "2 ^ (w - 1) \<le> n \<and> n < 2 ^ w"
    unfolding w_def by (intro floorlog_bounds) simp_all
  have w1: "1 \<le> w"
    using n1 by (simp add: w_def floorlog_def)
  have nx: "real n \<le> \<bar>x\<bar>" "\<bar>x\<bar> < real n + 1"
    using True by (simp_all add: n_def)
  have bx: "binade x = int w - 1"
    using True by (simp add: binade_def n_def w_def)
  have "(2 :: real) powi (int w - 1) = 2 ^ (w - 1)"
    using w1 by (simp add: power_int_def nat_diff_distrib')
  also have "\<dots> \<le> real n"
    using b by (metis of_nat_le_iff of_nat_numeral of_nat_power)
  finally have lo: "2 powi (int w - 1) \<le> \<bar>x\<bar>"
    using nx by linarith
  have "n + 1 \<le> 2 ^ w" using b by simp
  then have "real (n + 1) \<le> 2 ^ w"
    by (metis of_nat_le_iff of_nat_numeral of_nat_power)
  then have "\<bar>x\<bar> < 2 ^ w" using nx by simp
  then have hi: "\<bar>x\<bar> < 2 powi (int w - 1 + 1)" by simp
  from lo hi show ?thesis by (simp add: bx)
next
  case False
  define r where "r = 1 / \<bar>x\<bar>"
  have xpos: "0 < \<bar>x\<bar>" using assms by simp
  have r1: "1 < r" using False xpos by (simp add: r_def)
  define m where "m = nat (\<lceil>r\<rceil> - 1)"
  define w where "w = floorlog 2 m"
  have c2: "2 \<le> \<lceil>r\<rceil>" using r1 by linarith
  then have m1: "1 \<le> m" unfolding m_def by linarith
  then have b: "2 ^ (w - 1) \<le> m \<and> m < 2 ^ w"
    unfolding w_def by (intro floorlog_bounds) simp_all
  have w1: "1 \<le> w"
    using m1 by (simp add: w_def floorlog_def)
  have mr: "real m < r" "r \<le> real m + 1"
    using c2 by (simp_all add: m_def) linarith+
  have bx: "binade x = - int w"
    using False by (simp add: binade_def m_def w_def r_def)
  have "m + 1 \<le> 2 ^ w" using b by simp
  then have "real (m + 1) \<le> 2 ^ w"
    by (metis of_nat_le_iff of_nat_numeral of_nat_power)
  then have "r \<le> 2 ^ w" using mr by simp
  then have "1 / \<bar>x\<bar> \<le> 2 ^ w" by (simp add: r_def)
  then have "1 \<le> 2 ^ w * \<bar>x\<bar>"
    using xpos by (simp add: field_simps)
  then have "1 / 2 ^ w \<le> \<bar>x\<bar>"
    by (simp add: field_simps)
  then have lo: "2 powi (- int w) \<le> \<bar>x\<bar>"
    by (simp add: power_int_minus_divide)
  have "(2 :: real) ^ (w - 1) \<le> real m"
    using b by (metis of_nat_le_iff of_nat_numeral of_nat_power)
  then have "2 ^ (w - 1) < r" using mr by linarith
  then have "2 ^ (w - 1) < 1 / \<bar>x\<bar>" by (simp add: r_def)
  then have "2 ^ (w - 1) * \<bar>x\<bar> < 1"
    using xpos by (simp add: field_simps)
  then have "\<bar>x\<bar> < 1 / 2 ^ (w - 1)"
    by (simp add: field_simps)
  also have "1 / 2 ^ (w - 1) = (2 :: real) powi (- int w + 1)"
    using w1 by (simp add: power_int_def nat_diff_distrib' field_simps)
  finally have hi: "\<bar>x\<bar> < 2 powi (- int w + 1)" .
  from lo hi show ?thesis by (simp add: bx)
qed

lemma binade_unique:
  assumes "2 powi b \<le> \<bar>x\<bar>" and "\<bar>x\<bar> < 2 powi (b + 1)"
  shows "binade x = b"
proof -
  have "0 < \<bar>x\<bar>"
    using assms(1) p2_pos [of b] by linarith
  then have "x \<noteq> 0" by auto
  then have bb: "2 powi binade x \<le> \<bar>x\<bar>" "\<bar>x\<bar> < 2 powi (binade x + 1)"
    using binade_bounds by simp_all
  have "(2 :: real) powi b < 2 powi (binade x + 1)"
    using assms(1) bb(2) by linarith
  then have "b < binade x + 1" by (simp only: p2_less_iff)
  moreover have "(2 :: real) powi binade x < 2 powi (b + 1)"
    using assms(2) bb(1) by linarith
  then have "binade x < b + 1" by (simp only: p2_less_iff)
  ultimately show ?thesis by linarith
qed

lemma round_half_even_of_int: "round_half_even (of_int k) = k"
  by (simp add: round_half_even_def Let_def)

lemma round_half_even_close: "\<bar>of_int (round_half_even y) - y\<bar> \<le> 1 / 2"
  using round_half_even_nearest [of y] by (simp add: nearest_even_def abs_minus_commute)

lemma round_half_even_minus: "round_half_even (- y) = - round_half_even y"
proof -
  have "nearest_even (- y) (- round_half_even y)"
    using round_half_even_nearest [of y]
    by (simp add: nearest_even_def abs_minus_commute)
  then show ?thesis
    by (rule nearest_even_unique [symmetric])
qed

text \<open>The exponent of the last bit and the scaled argument.\<close>

lemma fl64_unfold:
  assumes "x \<noteq> 0"
  shows "fl64 x = of_int (round_half_even (x / 2 powi (max (binade x) (- 1022) - 52)))
                  * 2 powi (max (binade x) (- 1022) - 52)"
  using assms by (simp add: fl64_def Let_def)

lemma scaled_bound:
  assumes "x \<noteq> 0"
  shows "\<bar>x / 2 powi (max (binade x) (- 1022) - 52)\<bar> < 2 ^ 53"
proof -
  let ?e = "max (binade x) (- 1022) - 52"
  have "\<bar>x\<bar> < 2 powi (binade x + 1)"
    using binade_bounds [OF assms] by simp
  also have "(2 :: real) powi (binade x + 1) \<le> 2 powi (?e + 53)"
    by (simp only: p2_le_iff)
  also have "\<dots> = 2 powi ?e * 2 ^ 53"
    using p2_add [of ?e 53] by simp
  finally have "\<bar>x\<bar> < 2 powi ?e * 2 ^ 53" .
  then have "\<bar>x\<bar> / 2 powi ?e < 2 ^ 53"
    by (simp add: field_simps)
  then show ?thesis
    by (simp add: abs_divide)
qed

lemma scaled_normal:
  assumes "x \<noteq> 0" and "- 1022 \<le> binade x"
  shows "2 ^ 52 \<le> \<bar>x / 2 powi (binade x - 52)\<bar>"
proof -
  have "2 powi (binade x - 52) * 2 ^ 52 = (2 :: real) powi binade x"
    using p2_add [of "binade x - 52" 52] by simp
  also have "\<dots> \<le> \<bar>x\<bar>"
    using binade_bounds [OF assms(1)] by simp
  finally have "2 ^ 52 \<le> \<bar>x\<bar> / 2 powi (binade x - 52)"
    by (simp add: field_simps)
  then show ?thesis
    by (simp add: abs_divide)
qed

lemma binade_minus: "binade (- x) = binade x"
  by (simp add: binade_def)

lemma fl64_minus: "fl64 (- x) = - fl64 x"
  by (simp add: fl64_def binade_minus round_half_even_minus Let_def)

lemma fl64_nonneg:
  assumes "0 \<le> x"
  shows "0 \<le> fl64 x"
proof (cases "x = 0")
  case True
  then show ?thesis by (simp add: fl64_def)
next
  case False
  let ?e = "max (binade x) (- 1022) - 52"
  have "of_int 0 \<le> x / 2 powi ?e" using assms by simp
  then have "0 \<le> round_half_even (x / 2 powi ?e)"
    by (rule round_half_even_lower)
  then show ?thesis
    unfolding fl64_unfold [OF False] by simp
qed

lemma binade_mono:
  assumes "x \<noteq> 0" and "\<bar>x\<bar> \<le> \<bar>x'\<bar>"
  shows "binade x \<le> binade x'"
proof -
  have "x' \<noteq> 0" using assms by auto
  have "2 powi binade x \<le> \<bar>x\<bar>"
    using binade_bounds [OF assms(1)] by simp
  also have "\<bar>x\<bar> \<le> \<bar>x'\<bar>" by (rule assms(2))
  also have "\<bar>x'\<bar> < 2 powi (binade x' + 1)"
    using binade_bounds [OF \<open>x' \<noteq> 0\<close>] by simp
  finally have "binade x < binade x' + 1"
    by (simp only: p2_less_iff)
  then show ?thesis by simp
qed

lemma fl64_mono_pos:
  assumes "0 < x" and "x \<le> x'"
  shows "fl64 x \<le> fl64 x'"
proof -
  have nz: "x \<noteq> 0" "x' \<noteq> 0" using assms by simp_all
  let ?e = "max (binade x) (- 1022) - 52"
  let ?e' = "max (binade x') (- 1022) - 52"
  have "binade x \<le> binade x'"
    using nz(1) assms by (intro binade_mono) simp_all
  then have ee: "?e \<le> ?e'" by simp
  show ?thesis
  proof (cases "?e = ?e'")
    case True
    have "x / 2 powi ?e \<le> x' / 2 powi ?e"
      using assms(2) by (simp add: divide_right_mono)
    then have "round_half_even (x / 2 powi ?e) \<le> round_half_even (x' / 2 powi ?e)"
      by (rule round_half_even_mono)
    then have "of_int (round_half_even (x / 2 powi ?e)) * 2 powi ?e
        \<le> of_int (round_half_even (x' / 2 powi ?e)) * (2 :: real) powi ?e"
      by (simp add: mult_right_mono)
    then show ?thesis
      unfolding fl64_unfold [OF nz(1)] fl64_unfold [OF nz(2)] True [symmetric] .
  next
    case False
    with ee have lt: "?e + 1 \<le> ?e'" by simp
    then have nb: "- 1022 \<le> binade x'" and e': "?e' = binade x' - 52"
      by simp_all
    have "x / 2 powi ?e \<le> \<bar>x / 2 powi ?e\<bar>" by (rule abs_ge_self)
    also have "\<dots> < 2 ^ 53" using nz(1) by (rule scaled_bound)
    finally have "x / 2 powi ?e \<le> of_int (2 ^ 53)" by simp
    then have "round_half_even (x / 2 powi ?e) \<le> 2 ^ 53"
      by (rule round_half_even_upper)
    then have "(of_int (round_half_even (x / 2 powi ?e)) :: real) \<le> of_int (2 ^ 53)"
      by (simp only: of_int_le_iff)
    then have "of_int (round_half_even (x / 2 powi ?e)) * 2 powi ?e
        \<le> 2 ^ 53 * (2 :: real) powi ?e"
      by (simp add: mult_right_mono)
    also have "2 ^ 53 * (2 :: real) powi ?e = 2 powi (?e + 1) * 2 ^ 52"
      using p2_add [of ?e 1] by simp
    also have "\<dots> \<le> 2 powi ?e' * 2 ^ 52"
    proof -
      have "(2 :: real) powi (?e + 1) \<le> 2 powi ?e'"
        using lt by (simp only: p2_le_iff)
      then show ?thesis by (rule mult_right_mono) simp
    qed
    finally have lo: "fl64 x \<le> 2 powi ?e' * 2 ^ 52"
      unfolding fl64_unfold [OF nz(1)] .
    have "0 < x'" using assms by simp
    then have "\<bar>x' / 2 powi ?e'\<bar> = x' / 2 powi ?e'" by simp
    moreover have "2 ^ 52 \<le> \<bar>x' / 2 powi ?e'\<bar>"
      unfolding e' using nz(2) nb by (rule scaled_normal)
    ultimately have "of_int (2 ^ 52) \<le> x' / 2 powi ?e'" by simp
    then have "2 ^ 52 \<le> round_half_even (x' / 2 powi ?e')"
      by (rule round_half_even_lower)
    then have "(of_int (2 ^ 52) :: real) \<le> of_int (round_half_even (x' / 2 powi ?e'))"
      by (simp only: of_int_le_iff)
    then have "2 ^ 52 * (2 :: real) powi ?e'
        \<le> of_int (round_half_even (x' / 2 powi ?e')) * 2 powi ?e'"
      by (simp add: mult_right_mono)
    then have hi: "2 powi ?e' * 2 ^ 52 \<le> fl64 x'"
      unfolding fl64_unfold [OF nz(2)] by (simp add: mult.commute)
    from lo hi show ?thesis by (rule order_trans)
  qed
qed

lemma fl64_mono:
  assumes "x \<le> x'"
  shows "fl64 x \<le> fl64 x'"
proof -
  consider "0 < x" | "x \<le> 0" "0 \<le> x'" | "x' < 0"
    using assms by linarith
  then show ?thesis
  proof cases
    case 1
    then show ?thesis using assms by (rule fl64_mono_pos)
  next
    case 2
    have "0 \<le> fl64 (- x)" using 2(1) by (intro fl64_nonneg) simp
    then have "fl64 x \<le> 0" by (simp add: fl64_minus)
    also have "0 \<le> fl64 x'" using 2(2) by (rule fl64_nonneg)
    finally show ?thesis .
  next
    case 3
    then have "0 < - x'" and "- x' \<le> - x" using assms by simp_all
    then have "fl64 (- x') \<le> fl64 (- x)" by (rule fl64_mono_pos)
    then show ?thesis by (simp add: fl64_minus)
  qed
qed

lemma fl64_representable:
  assumes m: "\<bar>m\<bar> \<le> 2 ^ 53" and c: "- 1074 \<le> c"
  shows "fl64 (of_int m * 2 powi c) = of_int m * 2 powi c"
proof (cases "m = 0")
  case True
  then show ?thesis by (simp add: fl64_def)
next
  case False
  define x :: real where "x = of_int m * 2 powi c"
  have nz: "x \<noteq> 0" using False by (simp add: x_def)
  define e where "e = max (binade x) (- 1022) - 52"
  have ax: "\<bar>x\<bar> = of_int \<bar>m\<bar> * 2 powi c"
    by (simp add: x_def abs_mult)
  have "2 powi binade x \<le> \<bar>x\<bar>"
    using binade_bounds [OF nz] by simp
  also have "\<bar>x\<bar> \<le> of_int (2 ^ 53) * 2 powi c"
    unfolding ax using m by (intro mult_right_mono) (simp_all only: of_int_le_iff, simp)
  also have "of_int (2 ^ 53) * 2 powi c = (2 :: real) powi (c + 53)"
    using p2_add [of c 53] by simp
  finally have bb: "binade x \<le> c + 53"
    by (simp only: p2_le_iff)
  then have ec: "e \<le> c + 1"
    using c by (simp add: e_def)
  have fx: "fl64 x = of_int (round_half_even (x / 2 powi e)) * 2 powi e"
    unfolding e_def by (rule fl64_unfold [OF nz])
  show ?thesis
  proof (cases "e \<le> c")
    case True
    have "x / 2 powi e = of_int m * 2 powi (c - e)"
      by (simp add: x_def p2_diff)
    also have "(2 :: real) powi (c - e) = 2 ^ nat (c - e)"
      using True by (simp add: power_int_def)
    finally have "x / 2 powi e = of_int (m * 2 ^ nat (c - e))"
      by simp
    then have "of_int (round_half_even (x / 2 powi e)) = x / 2 powi e"
      by (simp only: round_half_even_of_int)
    then have "fl64 x = x"
      unfolding fx by simp
    then show ?thesis by (simp add: x_def)
  next
    case False
    with ec have e1: "e = c + 1" by simp
    then have "max (binade x) (- 1022) = c + 53"
      by (simp add: e_def)
    with c have bx: "binade x = c + 53"
      by (simp add: max_def split: if_splits)
    have "(2 :: real) powi (c + 53) \<le> \<bar>x\<bar>"
      using binade_bounds [OF nz] by (simp add: bx)
    then have "2 powi c * 2 ^ 53 \<le> of_int \<bar>m\<bar> * (2 :: real) powi c"
      using p2_add [of c 53] by (simp add: ax)
    then have "(2 :: real) ^ 53 \<le> of_int \<bar>m\<bar>"
      by (simp add: mult.commute)
    then have "(of_int (2 ^ 53) :: real) \<le> of_int \<bar>m\<bar>"
      by simp
    then have "2 ^ 53 \<le> \<bar>m\<bar>"
      by (simp only: of_int_le_iff)
    with m have am: "\<bar>m\<bar> = 2 ^ 53" by simp
    then have "m = 2 ^ 53 \<or> m = - (2 ^ 53)" by linarith
    then have ev: "m = 2 * (m div 2)"
      by (elim disjE) simp_all
    have "x / 2 powi e = of_int m / 2"
      using p2_add [of c 1] by (simp add: x_def e1)
    also have "\<dots> = of_int (m div 2)"
      by (subst ev) simp
    finally have "of_int (round_half_even (x / 2 powi e)) = x / 2 powi e"
      by (simp only: round_half_even_of_int)
    then have "fl64 x = x"
      unfolding fx by simp
    then show ?thesis by (simp add: x_def)
  qed
qed

lemma fl64_int:
  assumes "\<bar>k\<bar> \<le> 2 ^ 53"
  shows "fl64 (of_int k) = of_int k"
  using fl64_representable [OF assms, of 0] by simp

lemma fl64_idem: "fl64 (fl64 x) = fl64 x"
proof (cases "x = 0")
  case True
  then show ?thesis by (simp add: fl64_def)
next
  case False
  let ?e = "max (binade x) (- 1022) - 52"
  let ?k = "round_half_even (x / 2 powi ?e)"
  have b: "\<bar>x / 2 powi ?e\<bar> < 2 ^ 53"
    using False by (rule scaled_bound)
  then have "x / 2 powi ?e \<le> 2 ^ 53" and "- (2 ^ 53) \<le> x / 2 powi ?e"
    by linarith+
  then have u: "x / 2 powi ?e \<le> of_int (2 ^ 53)"
    and l: "of_int (- (2 ^ 53)) \<le> x / 2 powi ?e"
    by simp_all
  have "?k \<le> 2 ^ 53"
    using u by (rule round_half_even_upper)
  moreover have "- (2 ^ 53) \<le> ?k"
    using l by (rule round_half_even_lower)
  ultimately have k: "\<bar>?k\<bar> \<le> 2 ^ 53" by simp
  have e: "- 1074 \<le> ?e" by simp
  show ?thesis
    unfolding fl64_unfold [OF False] using k e by (rule fl64_representable)
qed

lemma fl64_relative_error:
  assumes "1 / 2 ^ 1022 \<le> \<bar>x\<bar>"
  shows "\<bar>fl64 x - x\<bar> \<le> \<bar>x\<bar> / 2 ^ 53"
proof -
  have pos: "0 < \<bar>x\<bar>"
    using assms by (rule less_le_trans [rotated]) simp
  then have nz: "x \<noteq> 0" by auto
  have "(2 :: real) powi (- 1022) \<le> \<bar>x\<bar>"
    using assms by (simp add: power_int_minus_divide)
  also have "\<bar>x\<bar> < 2 powi (binade x + 1)"
    using binade_bounds [OF nz] by simp
  finally have "- 1022 < binade x + 1"
    by (simp only: p2_less_iff)
  then have e: "max (binade x) (- 1022) - 52 = binade x - 52" by simp
  let ?e = "binade x - 52"
  let ?y = "x / 2 powi ?e"
  have fx: "fl64 x = of_int (round_half_even ?y) * 2 powi ?e"
    using fl64_unfold [OF nz] unfolding e .
  have "fl64 x - x = (of_int (round_half_even ?y) - ?y) * 2 powi ?e"
    unfolding fx by (simp add: algebra_simps)
  then have "\<bar>fl64 x - x\<bar> = \<bar>of_int (round_half_even ?y) - ?y\<bar> * 2 powi ?e"
    by (simp add: abs_mult)
  also have "\<dots> \<le> 1 / 2 * 2 powi ?e"
    using round_half_even_close [of ?y] by (intro mult_right_mono) simp_all
  also have "1 / 2 * (2 :: real) powi ?e = 2 powi binade x / 2 ^ 53"
    using p2_diff [of "binade x" 52] by simp
  also have "\<dots> \<le> \<bar>x\<bar> / 2 ^ 53"
    using binade_bounds [OF nz] by (intro divide_right_mono) simp_all
  finally show ?thesis .
qed

lemma standard_rounding_fl64: "standard_rounding fl64"
  unfolding standard_rounding_def
  by (intro conjI allI impI fl64_mono fl64_idem fl64_int fl64_relative_error) simp_all

subsection \<open>Three runs in the arithmetic of the machine\<close>

text \<open>
  With \<open>fl64\<close> the model computes what the interpreter computes. Temperature 98,
  precipitation 0, humidity 50, power demand 2100 and soil moisture 10 give the score
  0.7999999999999998, level \<open>High\<close> and the returned score 0.8 (exact arithmetic
  gives 0.8 and \<open>Extreme\<close>). The defaults with power demand 1900 give the confidence
  0.737 (exact arithmetic: 0.7375, rounded to 0.738). Temperature 90, precipitation 3,
  humidity 50, power demand 1801 and soil moisture 30 give the score 0.6014999999999999
  and the returned score 0.601 (exact arithmetic: 0.6015, rounded to 0.602).
\<close>

lemma double_run_a:
  "calculate_risk_score_fl fl64 (Num (PyInt 98)) (Num (PyInt 0)) (Num (PyInt 50))
     (Num (PyInt 2100)) (Num (PyInt 10)) =
     Inr (900719925474099 / 2 ^ 50)"
  "field (predict_compound_risk_fl fl64 now
     (observation (PyInt 98) (PyInt 0) (PyInt 50) (PyInt 2100) (PyInt 10))) ''risk_level'' =
     Some (FStr ''High'')"
  "field (predict_compound_risk_fl fl64 now
     (observation (PyInt 98) (PyInt 0) (PyInt 50) (PyInt 2100) (PyInt 10))) ''risk_score'' =
     Some (FFloat (fl64 0.8))"
  "field (predict_compound_risk_fl fl64 now
     (observation (PyInt 98) (PyInt 0) (PyInt 50) (PyInt 2100) (PyInt 10))) ''confidence'' =
     Some (FFloat (fl64 0.9))"
proof -
  have h: "spec_heat_risk_fl fl64 (PyInt 98) = 3602879701896397 / 2 ^ 54"
    by code_simp
  have i: "spec_infra_risk_fl fl64 (PyInt 2100) = 3 / 4"
    by code_simp
  have f: "spec_flood_risk_fl fl64 (PyInt 0) = 0"
    by code_simp
  have e: "spec_env_stress_fl fl64 (PyInt 98) (PyInt 0) (PyInt 50) (PyInt 10) = 2702159776422297 / 2 ^ 54"
    by code_simp
  have s: "spec_risk_score_fl fl64 (PyInt 98) (PyInt 0) (PyInt 50) (PyInt 2100) (PyInt 10) =
      900719925474099 / 2 ^ 50"
    unfolding spec_risk_score_fl_def h i f e by code_simp
  have l: "get_risk_level_fl fl64 (900719925474099 / 2 ^ 50) = ''High''"
    by code_simp
  have r: "py_round_fl fl64 (900719925474099 / 2 ^ 50) 3 = fl64 0.8"
    by code_simp
  have c: "spec_confidence_fl fl64 (900719925474099 / 2 ^ 50) = 2026619832316723 / 2 ^ 51"
    by code_simp
  have rc: "py_round_fl fl64 (2026619832316723 / 2 ^ 51) 3 = fl64 0.9"
    by code_simp
  show "calculate_risk_score_fl fl64 (Num (PyInt 98)) (Num (PyInt 0)) (Num (PyInt 50))
     (Num (PyInt 2100)) (Num (PyInt 10)) =
     Inr (900719925474099 / 2 ^ 50)"
    unfolding calculate_fl_numeric s by (rule refl)
  show "field (predict_compound_risk_fl fl64 now
     (observation (PyInt 98) (PyInt 0) (PyInt 50) (PyInt 2100) (PyInt 10))) ''risk_level'' =
     Some (FStr ''High'')"
    unfolding field_predict_fl_numeric s l by (rule refl)
  show "field (predict_compound_risk_fl fl64 now
     (observation (PyInt 98) (PyInt 0) (PyInt 50) (PyInt 2100) (PyInt 10))) ''risk_score'' =
     Some (FFloat (fl64 0.8))"
    unfolding field_predict_fl_numeric s r by (rule refl)
  show "field (predict_compound_risk_fl fl64 now
     (observation (PyInt 98) (PyInt 0) (PyInt 50) (PyInt 2100) (PyInt 10))) ''confidence'' =
     Some (FFloat (fl64 0.9))"
    unfolding field_predict_fl_numeric s c rc by (rule refl)
qed

lemma double_run_b:
  "calculate_risk_score_fl fl64 (Num (PyInt 75)) (Num (PyFloat (fl64 0.1))) (Num (PyInt 50))
     (Num (PyInt 1900)) (Num (PyInt 30)) =
     Inr (5404319552844595 / 2 ^ 55)"
  "field (predict_compound_risk_fl fl64 now
     (observation (PyInt 75) (PyFloat (fl64 0.1)) (PyInt 50) (PyInt 1900) (PyInt 30))) ''risk_level'' =
     Some (FStr ''Low'')"
  "field (predict_compound_risk_fl fl64 now
     (observation (PyInt 75) (PyFloat (fl64 0.1)) (PyInt 50) (PyInt 1900) (PyInt 30))) ''risk_score'' =
     Some (FFloat (fl64 0.15))"
  "field (predict_compound_risk_fl fl64 now
     (observation (PyInt 75) (PyFloat (fl64 0.1)) (PyInt 50) (PyInt 1900) (PyInt 30))) ''confidence'' =
     Some (FFloat (fl64 0.737))"
proof -
  have h: "spec_heat_risk_fl fl64 (PyInt 75) = 0"
    by code_simp
  have i: "spec_infra_risk_fl fl64 (PyInt 1900) = 1 / 4"
    by code_simp
  have f: "spec_flood_risk_fl fl64 (PyFloat (fl64 0.1)) = 0"
    by code_simp
  have e: "spec_env_stress_fl fl64 (PyInt 75) (PyFloat (fl64 0.1)) (PyInt 50) (PyInt 30) = 0"
    by code_simp
  have s: "spec_risk_score_fl fl64 (PyInt 75) (PyFloat (fl64 0.1)) (PyInt 50) (PyInt 1900) (PyInt 30) =
      5404319552844595 / 2 ^ 55"
    unfolding spec_risk_score_fl_def h i f e by code_simp
  have l: "get_risk_level_fl fl64 (5404319552844595 / 2 ^ 55) = ''Low''"
    by code_simp
  have r: "py_round_fl fl64 (5404319552844595 / 2 ^ 55) 3 = fl64 0.15"
    by code_simp
  have c: "spec_confidence_fl fl64 (5404319552844595 / 2 ^ 55) = 6642809450371481 / 2 ^ 53"
    by code_simp
  have rc: "py_round_fl fl64 (6642809450371481 / 2 ^ 53) 3 = fl64 0.737"
    by code_simp
  show "calculate_risk_score_fl fl64 (Num (PyInt 75)) (Num (PyFloat (fl64 0.1))) (Num (PyInt 50))
     (Num (PyInt 1900)) (Num (PyInt 30)) =
     Inr (5404319552844595 / 2 ^ 55)"
    unfolding calculate_fl_numeric s by (rule refl)
  show "field (predict_compound_risk_fl fl64 now
     (observation (PyInt 75) (PyFloat (fl64 0.1)) (PyInt 50) (PyInt 1900) (PyInt 30))) ''risk_level'' =
     Some (FStr ''Low'')"
    unfolding field_predict_fl_numeric s l by (rule refl)
  show "field (predict_compound_risk_fl fl64 now
     (observation (PyInt 75) (PyFloat (fl64 0.1)) (PyInt 50) (PyInt 1900) (PyInt 30))) ''risk_score'' =
     Some (FFloat (fl64 0.15))"
    unfolding field_predict_fl_numeric s r by (rule refl)
  show "field (predict_compound_risk_fl fl64 now
     (observation (PyInt 75) (PyFloat (fl64 0.1)) (PyInt 50) (PyInt 1900) (PyInt 30))) ''confidence'' =
     Some (FFloat (fl64 0.737))"
    unfolding field_predict_fl_numeric s c rc by (rule refl)
qed

lemma double_run_c:
  "calculate_risk_score_fl fl64 (Num (PyInt 90)) (Num (PyInt 3)) (Num (PyInt 50))
     (Num (PyInt 1801)) (Num (PyInt 30)) =
     Inr (2708915175863353 / 2 ^ 52)"
  "field (predict_compound_risk_fl fl64 now
     (observation (PyInt 90) (PyInt 3) (PyInt 50) (PyInt 1801) (PyInt 30))) ''risk_level'' =
     Some (FStr ''High'')"
  "field (predict_compound_risk_fl fl64 now
     (observation (PyInt 90) (PyInt 3) (PyInt 50) (PyInt 1801) (PyInt 30))) ''risk_score'' =
     Some (FFloat (fl64 0.601))"
  "field (predict_compound_risk_fl fl64 now
     (observation (PyInt 90) (PyInt 3) (PyInt 50) (PyInt 1801) (PyInt 30))) ''confidence'' =
     Some (FFloat (fl64 0.85))"
proof -
  have h: "spec_heat_risk_fl fl64 (PyInt 90) = 0"
    by code_simp
  have i: "spec_infra_risk_fl fl64 (PyInt 1801) = 5764607523034235 / 2 ^ 61"
    by code_simp
  have f: "spec_flood_risk_fl fl64 (PyInt 3) = 5404319552844595 / 2 ^ 53"
    by code_simp
  have e: "spec_env_stress_fl fl64 (PyInt 90) (PyInt 3) (PyInt 50) (PyInt 30) = 0"
    by code_simp
  have s: "spec_risk_score_fl fl64 (PyInt 90) (PyInt 3) (PyInt 50) (PyInt 1801) (PyInt 30) =
      2708915175863353 / 2 ^ 52"
    unfolding spec_risk_score_fl_def h i f e by code_simp
  have l: "get_risk_level_fl fl64 (2708915175863353 / 2 ^ 52) = ''High''"
    by code_simp
  have r: "py_round_fl fl64 (2708915175863353 / 2 ^ 52) 3 = fl64 0.601"
    by code_simp
  have c: "spec_confidence_fl fl64 (2708915175863353 / 2 ^ 52) = 3829748533125185 / 2 ^ 52"
    by code_simp
  have rc: "py_round_fl fl64 (3829748533125185 / 2 ^ 52) 3 = fl64 0.85"
    by code_simp
  show "calculate_risk_score_fl fl64 (Num (PyInt 90)) (Num (PyInt 3)) (Num (PyInt 50))
     (Num (PyInt 1801)) (Num (PyInt 30)) =
     Inr (2708915175863353 / 2 ^ 52)"
    unfolding calculate_fl_numeric s by (rule refl)
  show "field (predict_compound_risk_fl fl64 now
     (observation (PyInt 90) (PyInt 3) (PyInt 50) (PyInt 1801) (PyInt 30))) ''risk_level'' =
     Some (FStr ''High'')"
    unfolding field_predict_fl_numeric s l by (rule refl)
  show "field (predict_compound_risk_fl fl64 now
     (observation (PyInt 90) (PyInt 3) (PyInt 50) (PyInt 1801) (PyInt 30))) ''risk_score'' =
     Some (FFloat (fl64 0.601))"
    unfolding field_predict_fl_numeric s r by (rule refl)
  show "field (predict_compound_risk_fl fl64 now
     (observation (PyInt 90) (PyInt 3) (PyInt 50) (PyInt 1801) (PyInt 30))) ''confidence'' =
     Some (FFloat (fl64 0.85))"
    unfolding field_predict_fl_numeric s c rc by (rule refl)
qed

section \<open>The claims\<close>

subsection \<open>C1: the computed risk score is the specification's composite formula\<close>

text \<open>
  Claim C1, as stated, fails for the score that \<open>predict_compound_risk\<close> returns. With
  precipitation 2.9995 and the other readings at temperature 75, humidity 50, power
  demand 1500 and soil moisture 30, the composite formula gives 0.5999, and so does
  \<open>_calculate_risk_score\<close>, but the returned \<open>risk_score\<close> is 0.6.
\<close>

theorem C1_returned_score_counterexample:
  "calculate_risk_score (Num (PyInt 75)) (Num (PyFloat 2.9995)) (Num (PyInt 50))
        (Num (PyInt 1500)) (Num (PyInt 30)) = Inr 0.5999
   \<and> spec_risk_score 75 2.9995 50 1500 30 = 0.5999
   \<and> field (predict_compound_risk ''2025-07-01T12:00:00''
        (observation (PyInt 75) (PyFloat 2.9995) (PyInt 50) (PyInt 1500) (PyInt 30)))
        ''risk_score'' = Some (FFloat 0.6)
   \<and> (0.6 :: real) \<noteq> 0.5999"
proof -
  have s: "spec_risk_score (val (PyInt 75)) (val (PyFloat 2.9995)) (val (PyInt 50))
             (val (PyInt 1500)) (val (PyInt 30)) = 0.5999"
    by (simp add: spec_risk_score_def spec_heat_risk_def spec_flood_risk_def
        spec_infra_risk_def spec_env_stress_def spec_drought_stress_def
        spec_humidity_factor_def spec_soil_factor_def spec_compound_multiplier_def Let_def)
  have s': "spec_risk_score 75 2.9995 50 1500 30 = 0.5999"
    using s by simp
  have r: "py_round 0.5999 3 = 0.6"
    by (simp add: py_round_def round_half_even_def Let_def)
  have c: "calculate_risk_score (Num (PyInt 75)) (Num (PyFloat 2.9995)) (Num (PyInt 50))
        (Num (PyInt 1500)) (Num (PyInt 30)) = Inr 0.5999"
    unfolding calculate_numeric s by (rule refl)
  have f: "field (predict_compound_risk ''2025-07-01T12:00:00''
        (observation (PyInt 75) (PyFloat 2.9995) (PyInt 50) (PyInt 1500) (PyInt 30)))
        ''risk_score'' = Some (FFloat 0.6)"
    unfolding field_predict_numeric s r by (rule refl)
  have n: "(0.6 :: real) \<noteq> 0.5999" by simp
  from c s' f n show ?thesis by blast
qed

text \<open>
  Claim C1, amended. For every numeric observation, the score that
  \<open>_calculate_risk_score\<close> computes is the composite formula of the specification,
  evaluated in the arithmetic of the code (doubles, whatever their rounding \<open>fl\<close>); in
  exact arithmetic this is the formula over the reals. The \<open>risk_score\<close> field of the
  result is this score rounded to three decimals, ties to even.
\<close>

theorem C1_formula_in_double_arithmetic:
  "calculate_risk_score_fl fl (Num t) (Num p) (Num h) (Num d) (Num m) =
     Inr (spec_risk_score_fl fl t p h d m)
   \<and> spec_risk_score_fl (\<lambda>x. x) t p h d m =
     spec_risk_score (val t) (val p) (val h) (val d) (val m)
   \<and> (\<exists>k. nearest_even (spec_risk_score_fl fl t p h d m * 1000) k
        \<and> field (predict_compound_risk_fl fl now (observation t p h d m)) ''risk_score'' =
            Some (FFloat (fl (of_int k / 1000))))"
  using py_round_fl_nearest [of "spec_risk_score_fl fl t p h d m" fl]
  by (simp add: calculate_fl_numeric spec_risk_score_fl_exact field_predict_fl_numeric)

subsection \<open>C2: the risk level and the bucket of the returned score\<close>



subsection \<open>C3: ranges of the returned score and confidence\<close>

text \<open>
  Claim C3, as stated, fails in its last part. With precipitation 2.005 and the other
  readings at temperature 75, humidity 50, power demand 1500 and soil moisture 30, the
  result has \<open>risk_score\<close> 0.401 and \<open>confidence\<close> 0.8, while
  \<open>min(0.95, 0.7 + 0.401 * 0.25)\<close> is 0.80025.
\<close>

theorem C3_confidence_counterexample:
  "field (predict_compound_risk ''2025-07-01T12:00:00''
            (observation (PyInt 75) (PyFloat 2.005) (PyInt 50) (PyInt 1500) (PyInt 30)))
         ''risk_score'' = Some (FFloat 0.401)
   \<and> field (predict_compound_risk ''2025-07-01T12:00:00''
            (observation (PyInt 75) (PyFloat 2.005) (PyInt 50) (PyInt 1500) (PyInt 30)))
         ''confidence'' = Some (FFloat 0.8)
   \<and> (0.8 :: real) \<noteq> min 0.95 (0.7 + 0.401 * 0.25)"
proof -
  have s: "spec_risk_score (val (PyInt 75)) (val (PyFloat 2.005)) (val (PyInt 50))
             (val (PyInt 1500)) (val (PyInt 30)) = 0.401"
    by (simp add: spec_risk_score_def spec_heat_risk_def spec_flood_risk_def
        spec_infra_risk_def spec_env_stress_def spec_drought_stress_def
        spec_humidity_factor_def spec_soil_factor_def spec_compound_multiplier_def Let_def)
  have r: "py_round 0.401 3 = 0.401"
    by (simp add: py_round_def round_half_even_def Let_def)
  have c: "min 0.95 (0.7 + 0.401 * 0.25) = (0.80025 :: real)"
    by simp
  have rc: "py_round 0.80025 3 = 0.8"
    by (simp add: py_round_def round_half_even_def Let_def)
  have n: "(0.8 :: real) \<noteq> 0.80025"
    by simp
  show ?thesis
    unfolding field_predict_numeric s r c rc using n by simp
qed

text \<open>
  Claim C3, amended. For every numeric observation the result satisfies
  \<open>0 \<le> risk_score \<le> 1\<close> and \<open>0.70 \<le> confidence \<le> 0.95\<close>, the bounds 0.70 and 0.95
  being the doubles of these literals; \<open>risk_score\<close> is the computed score \<open>s\<close> rounded
  to three decimals, and \<open>confidence\<close> is \<open>min(0.95, 0.7 + s * 0.25)\<close>, computed in
  doubles from the unrounded \<open>s\<close>, rounded to three decimals. This holds for every
  rounding \<open>fl\<close> with the four properties of \<open>standard_rounding\<close>, which the rounding
  of the machine has.
\<close>

theorem C3_bounds_in_double_arithmetic:
  "standard_rounding fl \<Longrightarrow>
     \<exists>s score conf.
       calculate_risk_score_fl fl (Num t) (Num p) (Num h) (Num d) (Num m) = Inr s
       \<and> 0 \<le> s \<and> s \<le> 1
       \<and> field (predict_compound_risk_fl fl now (observation t p h d m)) ''risk_score'' =
           Some (FFloat score)
       \<and> field (predict_compound_risk_fl fl now (observation t p h d m)) ''confidence'' =
           Some (FFloat conf)
       \<and> 0 \<le> score \<and> score \<le> 1
       \<and> fl 0.70 \<le> conf \<and> conf \<le> fl 0.95
       \<and> (\<exists>k. nearest_even (s * 1000) k \<and> score = fl (of_int k / 1000))
       \<and> (\<exists>k. nearest_even (min (fl 0.95) (fl (fl 0.7 + fl (s * 0.25))) * 1000) k
            \<and> conf = fl (of_int k / 1000))"
proof -
  assume sr: "standard_rounding fl"
  let ?s = "spec_risk_score_fl fl t p h d m"
  have rng: "0 \<le> ?s \<and> ?s \<le> 1"
    using sr by (rule spec_risk_score_fl_range)
  then have s0: "0 \<le> ?s" and s1: "?s \<le> 1" by simp_all
  have score: "0 \<le> py_round_fl fl ?s 3 \<and> py_round_fl fl ?s 3 \<le> 1"
    using sr s0 s1 by (rule score_field_range)
  have conf: "fl 0.7 \<le> py_round_fl fl (spec_confidence_fl fl ?s) 3
         \<and> py_round_fl fl (spec_confidence_fl fl ?s) 3 \<le> fl 0.95"
    using sr s0 by (rule confidence_field_range)
  have c: "spec_confidence_fl fl ?s = min (fl 0.95) (fl (fl 0.7 + fl (?s * 0.25)))"
    by (simp add: spec_confidence_fl_def float_add_def float_mul_def)
  have k1: "\<exists>k. nearest_even (?s * 1000) k \<and> py_round_fl fl ?s 3 = fl (of_int k / 1000)"
    by (rule py_round_fl_nearest)
  have k2: "\<exists>k. nearest_even (min (fl 0.95) (fl (fl 0.7 + fl (?s * 0.25))) * 1000) k
       \<and> py_round_fl fl (spec_confidence_fl fl ?s) 3 = fl (of_int k / 1000)"
    using py_round_fl_nearest [of "spec_confidence_fl fl ?s" fl] unfolding c .
  show ?thesis
    using rng score conf k1 k2
    by (simp add: calculate_fl_numeric field_predict_fl_numeric)
qed

theorem C3_witness:
  "standard_rounding fl64
   \<and> (\<exists>s score conf.
       calculate_risk_score_fl fl64 (Num (PyInt 75)) (Num (PyFloat (fl64 0.1)))
         (Num (PyInt 50)) (Num (PyInt 1900)) (Num (PyInt 30)) = Inr s
       \<and> 0 \<le> s \<and> s \<le> 1
       \<and> field (predict_compound_risk_fl fl64 ''2025-07-01T12:00:00''
            (observation (PyInt 75) (PyFloat (fl64 0.1)) (PyInt 50) (PyInt 1900) (PyInt 30)))
            ''risk_score'' = Some (FFloat score)
       \<and> field (predict_compound_risk_fl fl64 ''2025-07-01T12:00:00''
            (observation (PyInt 75) (PyFloat (fl64 0.1)) (PyInt 50) (PyInt 1900) (PyInt 30)))
            ''confidence'' = Some (FFloat conf)
       \<and> 0 \<le> score \<and> score \<le> 1
       \<and> fl64 0.70 \<le> conf \<and> conf \<le> fl64 0.95
       \<and> (\<exists>k. nearest_even (s * 1000) k \<and> score = fl64 (of_int k / 1000))
       \<and> (\<exists>k. nearest_even (min (fl64 0.95) (fl64 (fl64 0.7 + fl64 (s * 0.25))) * 1000) k
            \<and> conf = fl64 (of_int k / 1000)))"
proof -
  have h: "standard_rounding fl64"
    by (rule standard_rounding_fl64)
  show ?thesis
    by (rule conjI [OF h C3_bounds_in_double_arithmetic [OF h]])
qed

subsection \<open>C4: the anomaly predicate\<close>

text \<open>
  Claim C4. For every numeric observation, \<open>is_anomaly\<close> is true exactly when one of
  the five conditions holds: temperature above 103, precipitation above 4.0, power
  demand above 1900, temperature above 100 with humidity above 80, temperature above 95
  with precipitation above 3.0. The comparison with 103 is strict: at temperature 103
  the result is decided by the other readings alone.
\<close>

theorem C4_anomaly_five_conditions:
  "detect_anomaly (Num t) (Num p) (Num h) (Num d) =
     Inr (val t > 103 \<or> val p > 4.0 \<or> val d > 1900 \<or> (val t > 100 \<and> val h > 80)
          \<or> (val t > 95 \<and> val p > 3.0))
   \<and> field (predict_compound_risk now (observation t p h d m)) ''is_anomaly'' =
     Some (FBool (val t > 103 \<or> val p > 4.0 \<or> val d > 1900 \<or> (val t > 100 \<and> val h > 80)
          \<or> (val t > 95 \<and> val p > 3.0)))
   \<and> detect_anomaly (Num (PyInt 103)) (Num p) (Num h) (Num d) =
     Inr (val p > 4.0 \<or> val d > 1900 \<or> val h > 80 \<or> val p > 3.0)"
  by (simp add: detect_numeric field_predict_numeric)

subsection \<open>C5: a failing comparison gives the degraded result\<close>

text \<open>
  Claim C5, as stated, fails. The input \<open>{'humidity': 'wet'}\<close> has a reading that is
  not a number, but with the default temperature 75 the code never compares the
  humidity: the result is an ordinary one, with \<open>risk_level\<close> \<open>'Low'\<close>, \<open>risk_score\<close>
  0.0 and no \<open>error\<close> key.
\<close>

theorem C5_non_numeric_humidity_counterexample:
  "has_non_numeric_reading [''humidity'' \<mapsto> Str ''wet'']
   \<and> field (predict_compound_risk ''2025-07-01T12:00:00'' [''humidity'' \<mapsto> Str ''wet''])
        ''error'' = None
   \<and> field (predict_compound_risk ''2025-07-01T12:00:00'' [''humidity'' \<mapsto> Str ''wet''])
        ''risk_level'' = Some (FStr ''Low'')
   \<and> field (predict_compound_risk ''2025-07-01T12:00:00'' [''humidity'' \<mapsto> Str ''wet''])
        ''risk_score'' = Some (FFloat 0.0)"
proof -
  have c: "calculate_risk_score (Num (PyInt 75)) (Num (PyFloat 0.1)) (Str ''wet'')
             (Num (PyInt 1500)) (Num (PyInt 30)) = Inr 0"
    by (simp add: calculate_risk_score_def heat_numeric infra_numeric flood_numeric
        drought_numeric soil_numeric humidity_factor_component_def py_num_simps
        py_and_short_simps bind_exc_simps combined_risk_def environmental_stress_def
        compound_multiplier_def spec_heat_risk_def spec_infra_risk_def spec_flood_risk_def
        spec_drought_stress_def spec_soil_factor_def Let_def)
  have a: "detect_anomaly (Num (PyInt 75)) (Num (PyFloat 0.1)) (Str ''wet'')
             (Num (PyInt 1500)) = Inr False"
    by (simp add: detect_anomaly_def py_num_simps py_and_simps py_and_short_simps
        bind_exc_simps)
  have l: "get_risk_level 0 = ''Low''"
    by (simp add: get_risk_level_def risk_thresholds_def)
  have r: "py_round 0 3 = 0"
    by (simp add: py_round_def round_half_even_def Let_def)
  have t: "try_body ''2025-07-01T12:00:00'' [''humidity'' \<mapsto> Str ''wet''] =
      Inr [(''risk_score'', FFloat 0), (''risk_level'', FStr ''Low''),
           (''is_anomaly'', FBool False), (''recommendations'', FList []),
           (''confidence'', FFloat 0.7), (''infrastructure_impact'', FStr ''Low''),
           (''analysis_time'', FStr ''2025-07-01T12:00:00'')]"
    by (simp add: try_body_def dict_get_def c a l r recommendations_numeric impact_numeric
        bind_exc_simps spec_tier_block_def spec_conditional_appends_def py_round_def
        round_half_even_def Let_def)
  have h: "has_non_numeric_reading [''humidity'' \<mapsto> Str ''wet'']"
    by (simp add: has_non_numeric_reading_def dict_get_def non_numeric_def)
  show ?thesis
    using h by (simp add: predict_compound_risk_def t field_def)
qed

text \<open>
  Claim C5, amended. For every input in which the temperature, the precipitation, the
  power demand or the soil moisture is not a number, or the humidity is not a number
  and the temperature is above 90, \<open>predict_compound_risk\<close> returns, without raising,
  the dictionary with an error message, \<open>risk_score\<close> 0.0 and \<open>risk_level\<close>
  \<open>'Unknown'\<close>, which is none of the four level names.
\<close>

theorem C5_failure_gives_degraded_result:
  "coercion_fails input_data \<Longrightarrow>
     (\<exists>msg. predict_compound_risk now input_data =
        [(''error'', FStr (''Risk prediction failed: '' @ msg)),
         (''risk_score'', FFloat 0.0), (''risk_level'', FStr ''Unknown'')])
     \<and> ''Unknown'' \<notin> set (map fst risk_thresholds)"
proof -
  assume "coercion_fails input_data"
  then have "isl (try_body now input_data)"
    by (simp add: try_body_raises_iff)
  then obtain e where "try_body now input_data = Inl e"
    by (auto simp add: isl_def)
  then have "predict_compound_risk now input_data =
        [(''error'', FStr (''Risk prediction failed: '' @ str_exc e)),
         (''risk_score'', FFloat 0.0), (''risk_level'', FStr ''Unknown'')]"
    by (rule predict_degraded)
  moreover have "''Unknown'' \<notin> set (map fst risk_thresholds)"
    by (simp add: risk_thresholds_def)
  ultimately show ?thesis by blast
qed

theorem C5_witness:
  "coercion_fails [''temperature'' \<mapsto> Str ''hot'', ''precipitation'' \<mapsto> Num (PyFloat 0.1)]
   \<and> (\<exists>msg. predict_compound_risk ''2025-07-01T12:00:00''
         [''temperature'' \<mapsto> Str ''hot'', ''precipitation'' \<mapsto> Num (PyFloat 0.1)] =
        [(''error'', FStr (''Risk prediction failed: '' @ msg)),
         (''risk_score'', FFloat 0.0), (''risk_level'', FStr ''Unknown'')])
   \<and> ''Unknown'' \<notin> set (map fst risk_thresholds)"
proof -
  have h: "coercion_fails
    [''temperature'' \<mapsto> Str ''hot'', ''precipitation'' \<mapsto> Num (PyFloat 0.1)]"
    by (simp add: coercion_fails_def dict_get_def non_numeric_def)
  show ?thesis
    using h C5_failure_gives_degraded_result [OF h, of "''2025-07-01T12:00:00''"]
    by simp
qed

subsection \<open>C6: monotonicity in temperature\<close>

text \<open>
  Claim C6. For two numeric observations that agree on precipitation, humidity, power
  demand and soil moisture, with temperatures \<open>t1 < t2\<close> both above 95, the heat risk
  and the risk score (computed, and returned) at \<open>t2\<close> are at least those at \<open>t1\<close>.
\<close>

theorem C6_temperature_monotone:
  "95 < val t1 \<Longrightarrow> val t1 < val t2 \<Longrightarrow>
     le_result (heat_risk_component (Num t1)) (heat_risk_component (Num t2))
     \<and> le_result (calculate_risk_score (Num t1) (Num p) (Num h) (Num d) (Num m))
                 (calculate_risk_score (Num t2) (Num p) (Num h) (Num d) (Num m))
     \<and> (\<exists>a b. field (predict_compound_risk now1 (observation t1 p h d m)) ''risk_score'' =
                  Some (FFloat a)
              \<and> field (predict_compound_risk now2 (observation t2 p h d m)) ''risk_score'' =
                  Some (FFloat b)
              \<and> a \<le> b)"
proof -
  assume "95 < val t1" and lt: "val t1 < val t2"
  from lt have le: "val t1 \<le> val t2" by simp
  have "spec_heat_risk (val t1) \<le> spec_heat_risk (val t2)"
    using le by (rule spec_heat_risk_mono)
  moreover have sc: "spec_risk_score (val t1) (val p) (val h) (val d) (val m)
        \<le> spec_risk_score (val t2) (val p) (val h) (val d) (val m)"
    using le by (rule spec_risk_score_mono)
  moreover have "py_round (spec_risk_score (val t1) (val p) (val h) (val d) (val m)) 3
        \<le> py_round (spec_risk_score (val t2) (val p) (val h) (val d) (val m)) 3"
    using sc by (rule py_round_mono)
  ultimately show ?thesis
    by (simp add: heat_numeric calculate_numeric field_predict_numeric)
qed

theorem C6_witness:
  "95 < val (PyInt 96) \<and> val (PyInt 96) < val (PyInt 104)
   \<and> le_result (heat_risk_component (Num (PyInt 96))) (heat_risk_component (Num (PyInt 104)))
   \<and> le_result
        (calculate_risk_score (Num (PyInt 96)) (Num (PyFloat 0.1)) (Num (PyInt 65))
           (Num (PyInt 1850)) (Num (PyInt 30)))
        (calculate_risk_score (Num (PyInt 104)) (Num (PyFloat 0.1)) (Num (PyInt 65))
           (Num (PyInt 1850)) (Num (PyInt 30)))"
proof -
  have a: "95 < val (PyInt 96)" by simp
  have b: "val (PyInt 96) < val (PyInt 104)" by simp
  show ?thesis
    using a b C6_temperature_monotone [OF a b, of "PyFloat 0.1" "PyInt 65" "PyInt 1850"
      "PyInt 30" "''2025-07-01T12:00:00''" "''2025-07-02T12:00:00''"]
    by simp
qed

subsection \<open>C7: scenario A\<close>

text \<open>
  Claim C7, as stated, fails in its derivation. At temperature 103, precipitation 0.1,
  humidity 65, power demand 1850 and soil moisture 30 the drought stress is 0.3
  (temperature above 95, precipitation below 0.5), so the environmental stress is 0.09
  and not 0, and the total is 539/600, more than 0.09 above 0.808.
\<close>

theorem C7_scenario_A_counterexample:
  "drought_stress_component (Num (PyInt 103)) (Num (PyFloat 0.1)) = Inr 0.3
   \<and> humidity_factor_component (Num (PyInt 103)) (Num (PyInt 65)) = Inr 1.0
   \<and> soil_factor_component (Num (PyInt 30)) = Inr 1.0
   \<and> environmental_stress 0.3 1.0 1.0 = 0.09
   \<and> calculate_risk_score (Num (PyInt 103)) (Num (PyFloat 0.1)) (Num (PyInt 65))
        (Num (PyInt 1850)) (Num (PyInt 30)) = Inr (539 / 600)
   \<and> (0.808 :: real) + 0.09 < 539 / 600"
  by (simp add: drought_numeric humidity_numeric soil_numeric calculate_numeric
      environmental_stress_def
      spec_risk_score_def spec_heat_risk_def spec_flood_risk_def
      spec_infra_risk_def spec_env_stress_def spec_drought_stress_def
      spec_humidity_factor_def spec_soil_factor_def spec_compound_multiplier_def Let_def)

text \<open>
  Claim C7, amended. For scenario A the heat risk is 11/15, the infrastructure risk
  0.125, the compound multiplier 1.0, the drought stress 0.3, the environmental stress
  0.09 and the total 539/600 (about 0.898); the risk level is \<open>Extreme\<close>, the returned
  score 0.898, and \<open>is_anomaly\<close> is false.
\<close>

theorem C7_scenario_A:
  "heat_risk_component (Num (PyInt 103)) = Inr (11 / 15)
   \<and> infra_risk_component (Num (PyInt 1850)) = Inr 0.125
   \<and> compound_multiplier (11 / 15) 0.125 = 1.0
   \<and> drought_stress_component (Num (PyInt 103)) (Num (PyFloat 0.1)) = Inr 0.3
   \<and> environmental_stress 0.3 1.0 1.0 = 0.09
   \<and> calculate_risk_score (Num (PyInt 103)) (Num (PyFloat 0.1)) (Num (PyInt 65))
        (Num (PyInt 1850)) (Num (PyInt 30)) = Inr (539 / 600)
   \<and> field (predict_compound_risk now
        (observation (PyInt 103) (PyFloat 0.1) (PyInt 65) (PyInt 1850) (PyInt 30)))
        ''risk_level'' = Some (FStr ''Extreme'')
   \<and> field (predict_compound_risk now
        (observation (PyInt 103) (PyFloat 0.1) (PyInt 65) (PyInt 1850) (PyInt 30)))
        ''risk_score'' = Some (FFloat 0.898)
   \<and> detect_anomaly (Num (PyInt 103)) (Num (PyFloat 0.1)) (Num (PyInt 65))
        (Num (PyInt 1850)) = Inr False
   \<and> field (predict_compound_risk now
        (observation (PyInt 103) (PyFloat 0.1) (PyInt 65) (PyInt 1850) (PyInt 30)))
        ''is_anomaly'' = Some (FBool False)"
proof -
  have h: "spec_heat_risk (val (PyInt 103)) = 11 / 15"
    by (simp add: spec_heat_risk_def Let_def)
  have i: "spec_infra_risk (val (PyInt 1850)) = 0.125"
    by (simp add: spec_infra_risk_def)
  have m: "compound_multiplier (11 / 15) 0.125 = 1.0"
    by (simp add: compound_multiplier_def)
  have dr: "spec_drought_stress (val (PyInt 103)) (val (PyFloat 0.1)) = 0.3"
    by (simp add: spec_drought_stress_def)
  have e: "environmental_stress 0.3 1.0 1.0 = 0.09"
    by (simp add: environmental_stress_def)
  have s: "spec_risk_score (val (PyInt 103)) (val (PyFloat 0.1)) (val (PyInt 65))
             (val (PyInt 1850)) (val (PyInt 30)) = 539 / 600"
    by (simp add: spec_risk_score_def spec_heat_risk_def spec_flood_risk_def
        spec_infra_risk_def spec_env_stress_def spec_drought_stress_def
        spec_humidity_factor_def spec_soil_factor_def spec_compound_multiplier_def Let_def)
  have l: "get_risk_level (539 / 600) = ''Extreme''"
    by (simp add: get_risk_level_def risk_thresholds_def)
  have r: "py_round (539 / 600) 3 = 0.898"
    by (simp add: py_round_def round_half_even_def Let_def)
  have a: "detect_anomaly (Num (PyInt 103)) (Num (PyFloat 0.1)) (Num (PyInt 65))
        (Num (PyInt 1850)) = Inr False"
    by (simp add: detect_numeric)
  have fa: "field (predict_compound_risk now
        (observation (PyInt 103) (PyFloat 0.1) (PyInt 65) (PyInt 1850) (PyInt 30)))
        ''is_anomaly'' = Some (FBool False)"
    by (simp add: field_predict_numeric)
  show ?thesis
    unfolding heat_numeric infra_numeric drought_numeric calculate_numeric
      field_predict_numeric(1,2) h i dr s l r
    using m e a fa by simp
qed

subsection \<open>C8: the list of recommendations\<close>

text \<open>
  Claim C8. For every numeric observation the recommendations are the tier block of the
  risk level (six strings for Extreme, five for High, four for Moderate, none for Low)
  followed, in this order, by the cancel-outdoor-activities string if the temperature is
  above 100, the grid-stress string if the power demand is above 1850 and the
  flood-drainage string if the precipitation is above 3.0.
\<close>

theorem C8_recommendations_order:
  "generate_recommendations level (Num t) (Num p) (Num d) =
     Inr (spec_tier_block level
          @ (if val t > 100 then [cancel_outdoor_activities] else [])
          @ (if val d > 1850 then [grid_stress] else [])
          @ (if val p > 3.0 then [flood_drainage] else []))
   \<and> length (spec_tier_block ''Extreme'') = 6
   \<and> length (spec_tier_block ''High'') = 5
   \<and> length (spec_tier_block ''Moderate'') = 4
   \<and> spec_tier_block ''Low'' = []
   \<and> (\<exists>lvl. field (predict_compound_risk now (observation t p h d m)) ''risk_level'' =
               Some (FStr lvl)
        \<and> field (predict_compound_risk now (observation t p h d m)) ''recommendations'' =
               Some (FList (spec_tier_block lvl
                 @ (if val t > 100 then [cancel_outdoor_activities] else [])
                 @ (if val d > 1850 then [grid_stress] else [])
                 @ (if val p > 3.0 then [flood_drainage] else []))))"
  by (simp add: recommendations_numeric field_predict_numeric spec_conditional_appends_def
      spec_tier_block_def extreme_actions_def high_actions_def moderate_actions_def)

subsection \<open>C9: the keys of the degraded result\<close>

text \<open>
  Claim C9. When the body of the \<open>try\<close> statement raises, the returned dictionary has
  exactly the keys \<open>error\<close>, \<open>risk_score\<close> and \<open>risk_level\<close>, and \<open>is_anomaly\<close>,
  \<open>recommendations\<close>, \<open>confidence\<close>, \<open>infrastructure_impact\<close> and \<open>analysis_time\<close>
  are absent; otherwise it has the seven keys of a success result. The body raises
  exactly on the inputs where a comparison meets a value that is not a number.
\<close>

theorem C9_error_result_keys:
  "(if isl (try_body now input_data)
    then map fst (predict_compound_risk now input_data) =
           [''error'', ''risk_score'', ''risk_level'']
       \<and> field (predict_compound_risk now input_data) ''is_anomaly'' = None
       \<and> field (predict_compound_risk now input_data) ''recommendations'' = None
       \<and> field (predict_compound_risk now input_data) ''confidence'' = None
       \<and> field (predict_compound_risk now input_data) ''infrastructure_impact'' = None
       \<and> field (predict_compound_risk now input_data) ''analysis_time'' = None
    else map fst (predict_compound_risk now input_data) =
           [''risk_score'', ''risk_level'', ''is_anomaly'', ''recommendations'',
            ''confidence'', ''infrastructure_impact'', ''analysis_time''])
   \<and> isl (try_body now input_data) = coercion_fails input_data"
proof -
  have keys: "if isl (try_body now input_data)
    then map fst (predict_compound_risk now input_data) =
           [''error'', ''risk_score'', ''risk_level'']
       \<and> field (predict_compound_risk now input_data) ''is_anomaly'' = None
       \<and> field (predict_compound_risk now input_data) ''recommendations'' = None
       \<and> field (predict_compound_risk now input_data) ''confidence'' = None
       \<and> field (predict_compound_risk now input_data) ''infrastructure_impact'' = None
       \<and> field (predict_compound_risk now input_data) ''analysis_time'' = None
    else map fst (predict_compound_risk now input_data) =
           [''risk_score'', ''risk_level'', ''is_anomaly'', ''recommendations'',
            ''confidence'', ''infrastructure_impact'', ''analysis_time'']"
  proof (cases "try_body now input_data")
    case (Inl e)
    then show ?thesis
      by (simp add: predict_degraded [OF Inl] field_def)
  next
    case (Inr result)
    then show ?thesis
      using try_body_keys [OF Inr] by (simp add: predict_success [OF Inr])
  qed
  with try_body_raises_iff [of now input_data] show ?thesis
    by simp
qed

theorem C9_witness:
  "map fst (predict_compound_risk ''2025-07-01T12:00:00'' [''temperature'' \<mapsto> NoneVal]) =
     [''error'', ''risk_score'', ''risk_level'']
   \<and> field (predict_compound_risk ''2025-07-01T12:00:00'' [''temperature'' \<mapsto> NoneVal])
       ''confidence'' = None
   \<and> map fst (predict_compound_risk ''2025-07-01T12:00:00''
                [''temperature'' \<mapsto> Num (PyInt 103)]) =
     [''risk_score'', ''risk_level'', ''is_anomaly'', ''recommendations'',
      ''confidence'', ''infrastructure_impact'', ''analysis_time'']"
proof -
  have a: "coercion_fails [''temperature'' \<mapsto> NoneVal]"
    by (simp add: coercion_fails_def dict_get_def non_numeric_def)
  have b: "\<not> coercion_fails [''temperature'' \<mapsto> Num (PyInt 103)]"
    by (simp add: coercion_fails_def dict_get_def non_numeric_def)
  show ?thesis
    using C9_error_result_keys [of "''2025-07-01T12:00:00''" "[''temperature'' \<mapsto> NoneVal]"]
      C9_error_result_keys [of "''2025-07-01T12:00:00''"
        "[''temperature'' \<mapsto> Num (PyInt 103)]"] a b
    by simp
qed

subsection \<open>C10: rounded fields and the unrounded score\<close>


end
